theory Spec2Isabelle
  imports Main "HOL-Library.Word"
begin

unbundle bit_operations_syntax

section \<open>Python values\<close>

text \<open>
  A Python \<^verbatim>\<open>str\<close> is a sequence of Unicode code points. The bot's texts are Russian, so a
  string is a list of code points here; \<open>ascii\<close> embeds an ASCII literal. The double quote
  is code point 34 and the apostrophe 39.
\<close>

type_synonym ustr = "nat list"

definition ascii :: "string \<Rightarrow> ustr" where
  "ascii s = map of_char s"

text \<open>
  What \<^verbatim>\<open>response.json()\<close> can return: the values \<^verbatim>\<open>json\<close> decodes to. An integer is
  unbounded, a float is an IEEE double given by its 64 bits, and a dict is the list of its
  items (keys are strings, as in every JSON object); a lookup reads the first item of a key.
\<close>

datatype json =
    JNull
  | JBool bool
  | JInt int
  | JFloat "64 word"
  | JStr ustr
  | JList "json list"
  | JDict "(ustr \<times> json) list"

text \<open>Truth value of an object, as \<^verbatim>\<open>or\<close> and \<^verbatim>\<open>if\<close> test it; both zeros of a float are false.\<close>

fun truthy :: "json \<Rightarrow> bool" where
  "truthy JNull = False"
| "truthy (JBool b) = b"
| "truthy (JInt i) = (i \<noteq> 0)"
| "truthy (JFloat w) = (w AND 0x7FFFFFFFFFFFFFFF \<noteq> 0)"
| "truthy (JStr s) = (s \<noteq> [])"
| "truthy (JList xs) = (xs \<noteq> [])"
| "truthy (JDict kvs) = (kvs \<noteq> [])"

text \<open>Lists and dicts have no hash; every other decoded value has one.\<close>

fun hashable :: "json \<Rightarrow> bool" where
  "hashable (JList xs) = False"
| "hashable (JDict kvs) = False"
| "hashable v = True"

text \<open>
  The texts the interpreter itself produces are parameters of the model: \<^verbatim>\<open>repr\<close> of a
  value (it depends on the Unicode database and on float printing), and the messages of the
  errors the interpreter raises (they differ between Python versions).
\<close>

record runtime =
  py_repr :: "json \<Rightarrow> ustr"
  not_container_text :: "json \<Rightarrow> ustr"
  no_attribute_get_text :: "json \<Rightarrow> ustr"
  unhashable_text :: "json \<Rightarrow> ustr"

text \<open>
  \<^verbatim>\<open>str(v)\<close>, which is also what an f-string and \<^verbatim>\<open>str.format\<close> insert for a bare field:
  a string is itself, every other decoded value prints as its \<^verbatim>\<open>repr\<close>.
\<close>

fun py_str :: "runtime \<Rightarrow> json \<Rightarrow> ustr" where
  "py_str rt (JStr s) = s"
| "py_str rt v = py_repr rt v"

section \<open>The exceptions\<close>

text \<open>
  The classes of \<^verbatim>\<open>exceptions.py\<close>, the built-in errors the code raises or provokes, and
  \<open>LibraryError\<close> for an exception of \<^verbatim>\<open>requests\<close> or \<^verbatim>\<open>telegram\<close> that the code lets
  through. A constructor carries the arguments the exception was built with;
  \<open>WrongResponseCode\<close> is raised with a message alone or with a message and the caught
  library error, of which the \<^verbatim>\<open>repr\<close> is kept. An error the interpreter raises carries
  its message, and a library error its \<^verbatim>\<open>str\<close>.
\<close>

datatype error =
    WrongResponseCode ustr "ustr option"
  | EmptyResponseFromAPI ustr
  | TelegramError ustr
  | TypeError ustr
  | KeyError ustr
  | ValueError ustr
  | AttributeError ustr
  | LibraryError ustr

text \<open>\<^verbatim>\<open>isinstance(error, NotForSend)\<close>: the two subclasses of \<^verbatim>\<open>NotForSend\<close>.\<close>

fun NotForSend :: "error \<Rightarrow> bool" where
  "NotForSend (EmptyResponseFromAPI m) = True"
| "NotForSend (TelegramError m) = True"
| "NotForSend e = False"

text \<open>
  \<^verbatim>\<open>str(error)\<close>: the single argument; for a \<^verbatim>\<open>KeyError\<close> the \<^verbatim>\<open>repr\<close> of its argument;
  for two arguments the \<^verbatim>\<open>repr\<close> of the pair.
\<close>

fun str_error :: "runtime \<Rightarrow> error \<Rightarrow> ustr" where
  "str_error rt (WrongResponseCode m None) = m"
| "str_error rt (WrongResponseCode m (Some r)) =
     ascii ''('' @ py_repr rt (JStr m) @ ascii '', '' @ r @ ascii '')''"
| "str_error rt (EmptyResponseFromAPI m) = m"
| "str_error rt (TelegramError m) = m"
| "str_error rt (TypeError m) = m"
| "str_error rt (KeyError m) = py_repr rt (JStr m)"
| "str_error rt (ValueError m) = m"
| "str_error rt (AttributeError m) = m"
| "str_error rt (LibraryError m) = m"

section \<open>The texts of the program\<close>

definition verdict_approved :: ustr where
  (* Rabota proverena: revyueru vsyo ponravilos. Ura! *)
  "verdict_approved =
    [1056, 1072, 1073, 1086, 1090, 1072] @ ascii '' '' @
    [1087, 1088, 1086, 1074, 1077, 1088, 1077, 1085, 1072] @ ascii '': '' @
    [1088, 1077, 1074, 1100, 1102, 1077, 1088, 1091] @ ascii '' '' @ [1074, 1089, 1105] @
    ascii '' '' @ [1087, 1086, 1085, 1088, 1072, 1074, 1080, 1083, 1086, 1089, 1100] @
    ascii ''. '' @ [1059, 1088, 1072] @ ascii ''!''"

definition verdict_reviewing :: ustr where
  (* Rabota vzyata na proverku revyuerom. *)
  "verdict_reviewing =
    [1056, 1072, 1073, 1086, 1090, 1072] @ ascii '' '' @ [1074, 1079, 1103, 1090, 1072] @
    ascii '' '' @ [1085, 1072] @ ascii '' '' @
    [1087, 1088, 1086, 1074, 1077, 1088, 1082, 1091] @ ascii '' '' @
    [1088, 1077, 1074, 1100, 1102, 1077, 1088, 1086, 1084] @ ascii ''.''"

definition verdict_rejected :: ustr where
  (* Rabota proverena: u revyuera est zamechaniya. *)
  "verdict_rejected =
    [1056, 1072, 1073, 1086, 1090, 1072] @ ascii '' '' @
    [1087, 1088, 1086, 1074, 1077, 1088, 1077, 1085, 1072] @ ascii '': '' @ [1091] @
    ascii '' '' @ [1088, 1077, 1074, 1100, 1102, 1077, 1088, 1072] @ ascii '' '' @
    [1077, 1089, 1090, 1100] @ ascii '' '' @
    [1079, 1072, 1084, 1077, 1095, 1072, 1085, 1080, 1103] @ ascii ''.''"

definition status_changed :: ustr where
  (* Izmenilsya status proverki raboty " *)
  "status_changed =
    [1048, 1079, 1084, 1077, 1085, 1080, 1083, 1089, 1103] @ ascii '' '' @
    [1089, 1090, 1072, 1090, 1091, 1089] @ ascii '' '' @
    [1087, 1088, 1086, 1074, 1077, 1088, 1082, 1080] @ ascii '' '' @
    [1088, 1072, 1073, 1086, 1090, 1099] @ ascii '' '' @ [34]"

definition msg_not_dict :: ustr where
  (* Otvet API ne yavlyaetsya dict. *)
  "msg_not_dict =
    [1054, 1090, 1074, 1077, 1090] @ ascii '' API '' @ [1085, 1077] @ ascii '' '' @
    [1103, 1074, 1083, 1103, 1077, 1090, 1089, 1103] @ ascii '' dict.''"

definition msg_missing_keys :: ustr where
  (* Otsutstvuet odin iz klyuchey, homeworks ili current_date, v otvete API. *)
  "msg_missing_keys =
    [1054, 1090, 1089, 1091, 1090, 1089, 1090, 1074, 1091, 1077, 1090] @ ascii '' '' @
    [1086, 1076, 1080, 1085] @ ascii '' '' @ [1080, 1079] @ ascii '' '' @
    [1082, 1083, 1102, 1095, 1077, 1081] @ ascii '', homeworks '' @ [1080, 1083, 1080] @
    ascii '' current_date, '' @ [1074] @ ascii '' '' @ [1086, 1090, 1074, 1077, 1090, 1077] @
    ascii '' API.''"

definition msg_not_list :: ustr where
  (* homeworks ne yavlyaetsya list. *)
  "msg_not_list =
    ascii ''homeworks '' @ [1085, 1077] @ ascii '' '' @
    [1103, 1074, 1083, 1103, 1077, 1090, 1089, 1103] @ ascii '' list.''"

definition msg_no_homework_name :: ustr where
  (* Net klyucha homework_name v otvete API. *)
  "msg_no_homework_name =
    [1053, 1077, 1090] @ ascii '' '' @ [1082, 1083, 1102, 1095, 1072] @
    ascii '' homework_name '' @ [1074] @ ascii '' '' @ [1086, 1090, 1074, 1077, 1090, 1077] @
    ascii '' API.''"

definition msg_unknown_status :: ustr where
  (* Neizvestnyy status raboty -  *)
  "msg_unknown_status =
    [1053, 1077, 1080, 1079, 1074, 1077, 1089, 1090, 1085, 1099, 1081] @ ascii '' '' @
    [1089, 1090, 1072, 1090, 1091, 1089] @ ascii '' '' @ [1088, 1072, 1073, 1086, 1090, 1099] @
    ascii '' - ''"

definition msg_send_start :: ustr where
  (* Nachalo otpravki statusa v telegram. *)
  "msg_send_start =
    [1053, 1072, 1095, 1072, 1083, 1086] @ ascii '' '' @
    [1086, 1090, 1087, 1088, 1072, 1074, 1082, 1080] @ ascii '' '' @
    [1089, 1090, 1072, 1090, 1091, 1089, 1072] @ ascii '' '' @ [1074] @ ascii '' telegram.''"

definition msg_send_failed :: ustr where
  (* Oshibka otpravki statusa v telegram. *)
  "msg_send_failed =
    [1054, 1096, 1080, 1073, 1082, 1072] @ ascii '' '' @
    [1086, 1090, 1087, 1088, 1072, 1074, 1082, 1080] @ ascii '' '' @
    [1089, 1090, 1072, 1090, 1091, 1089, 1072] @ ascii '' '' @ [1074] @ ascii '' telegram.''"

definition msg_send_failed_with :: ustr where
  (* Oshibka otpravki statusa v telegram:  *)
  "msg_send_failed_with =
    [1054, 1096, 1080, 1073, 1082, 1072] @ ascii '' '' @
    [1086, 1090, 1087, 1088, 1072, 1074, 1082, 1080] @ ascii '' '' @
    [1089, 1090, 1072, 1090, 1091, 1089, 1072] @ ascii '' '' @ [1074] @ ascii '' telegram: ''"

definition msg_sent :: ustr where
  (* Status otpravlen v telegram. *)
  "msg_sent =
    [1057, 1090, 1072, 1090, 1091, 1089] @ ascii '' '' @
    [1086, 1090, 1087, 1088, 1072, 1074, 1083, 1077, 1085] @ ascii '' '' @ [1074] @
    ascii '' telegram.''"

definition no_new_statuses :: ustr where
  (* Net novykh statusov *)
  "no_new_statuses =
    [1053, 1077, 1090] @ ascii '' '' @ [1085, 1086, 1074, 1099, 1093] @ ascii '' '' @
    [1089, 1090, 1072, 1090, 1091, 1089, 1086, 1074]"

definition failure_prefix :: ustr where
  (* Sboy v rabote programmy:  *)
  "failure_prefix =
    [1057, 1073, 1086, 1081] @ ascii '' '' @ [1074] @ ascii '' '' @
    [1088, 1072, 1073, 1086, 1090, 1077] @ ascii '' '' @
    [1087, 1088, 1086, 1075, 1088, 1072, 1084, 1084, 1099] @ ascii '': ''"

definition msg_not_200 :: ustr where
  (* API ne vozvrashchaet 200.  *)
  "msg_not_200 =
    ascii ''API '' @ [1085, 1077] @ ascii '' '' @
    [1074, 1086, 1079, 1074, 1088, 1072, 1097, 1072, 1077, 1090] @ ascii '' 200. ''"

definition msg_response_code :: ustr where
  (* Kod otveta  *)
  "msg_response_code =
    [1050, 1086, 1076] @ ascii '' '' @ [1086, 1090, 1074, 1077, 1090, 1072] @ ascii '' ''"

definition msg_request :: ustr where
  (* Zapros:  *)
  "msg_request =
    [1047, 1072, 1087, 1088, 1086, 1089] @ ascii '': ''"

definition msg_request_failed :: ustr where
  (* Proizoshla oshibka pri zaprose k API.  *)
  "msg_request_failed =
    [1055, 1088, 1086, 1080, 1079, 1086, 1096, 1083, 1072] @ ascii '' '' @
    [1086, 1096, 1080, 1073, 1082, 1072] @ ascii '' '' @ [1087, 1088, 1080] @ ascii '' '' @
    [1079, 1072, 1087, 1088, 1086, 1089, 1077] @ ascii '' '' @ [1082] @ ascii '' API. ''"

text \<open>
  \<^verbatim>\<open>HOMEWORK_VERDICTS\<close>, in the order of the source; \<^verbatim>\<open>status in HOMEWORK_VERDICTS\<close> and
  \<^verbatim>\<open>HOMEWORK_VERDICTS[status]\<close> read it through \<open>verdict_of\<close>: only a string can equal a key.
\<close>

definition HOMEWORK_VERDICTS :: "(ustr \<times> ustr) list" where
  "HOMEWORK_VERDICTS =
    [(ascii ''approved'', verdict_approved),
     (ascii ''reviewing'', verdict_reviewing),
     (ascii ''rejected'', verdict_rejected)]"

fun verdict_of :: "json \<Rightarrow> ustr option" where
  "verdict_of (JStr s) = map_of HOMEWORK_VERDICTS s"
| "verdict_of v = None"

section \<open>Operations of the interpreter\<close>

text \<open>\<^verbatim>\<open>k in s\<close> for two strings: \<open>k\<close> occurs in \<open>s\<close> as a contiguous run.\<close>

primrec substring_of :: "ustr \<Rightarrow> ustr \<Rightarrow> bool" where
  "substring_of k [] = (k = [])"
| "substring_of k (c # cs) = (take (length k) (c # cs) = k \<or> substring_of k cs)"

text \<open>
  \<^verbatim>\<open>k in v\<close> for a string \<open>k\<close>: a key of a dict, an element of a list, a substring of a
  string; any other value is no container and the test raises \<^verbatim>\<open>TypeError\<close>.
\<close>

fun py_in :: "runtime \<Rightarrow> ustr \<Rightarrow> json \<Rightarrow> error + bool" where
  "py_in rt k (JDict kvs) = Inr (k \<in> set (map fst kvs))"
| "py_in rt k (JList xs) = Inr (JStr k \<in> set xs)"
| "py_in rt k (JStr s) = Inr (substring_of k s)"
| "py_in rt k v = Inl (TypeError (not_container_text rt v))"

text \<open>
  \<^verbatim>\<open>v.get(k, d)\<close>: only a dict has the method; on any other value the attribute lookup
  raises \<^verbatim>\<open>AttributeError\<close>.
\<close>

fun py_get :: "runtime \<Rightarrow> json \<Rightarrow> ustr \<Rightarrow> json \<Rightarrow> error + json" where
  "py_get rt (JDict kvs) k d = Inr (case map_of kvs k of None \<Rightarrow> d | Some v \<Rightarrow> v)"
| "py_get rt v k d = Inl (AttributeError (no_attribute_get_text rt v))"

section \<open>Validation and formatting\<close>

text \<open>
  \<^verbatim>\<open>check_response\<close>: the response must be a dict with both keys, and \<^verbatim>\<open>homeworks\<close> a list,
  which is returned.
\<close>

fun check_response :: "json \<Rightarrow> error + json list" where
  "check_response (JDict kvs) =
     (if ascii ''homeworks'' \<notin> set (map fst kvs) \<or> ascii ''current_date'' \<notin> set (map fst kvs)
      then Inl (EmptyResponseFromAPI msg_missing_keys)
      else (case map_of kvs (ascii ''homeworks'') of
              Some (JList homeworks) \<Rightarrow> Inr homeworks
            | _ \<Rightarrow> Inl (TypeError msg_not_list)))"
| "check_response response = Inl (TypeError msg_not_dict)"

text \<open>
  \<^verbatim>\<open>parse_status\<close>, statement by statement: the membership test for \<^verbatim>\<open>homework_name\<close>, the
  two \<^verbatim>\<open>get\<close> calls (a missing \<^verbatim>\<open>status\<close> reads as \<^verbatim>\<open>None\<close>), the membership test of the
  status in \<^verbatim>\<open>HOMEWORK_VERDICTS\<close>, which hashes the status first, and the formatted text.
\<close>

definition parse_status :: "runtime \<Rightarrow> json \<Rightarrow> error + ustr" where
  "parse_status rt homework =
     (case py_in rt (ascii ''homework_name'') homework of
        Inl e \<Rightarrow> Inl e
      | Inr present \<Rightarrow>
          if \<not> present then Inl (KeyError msg_no_homework_name)
          else
            (case py_get rt homework (ascii ''homework_name'') JNull of
               Inl e \<Rightarrow> Inl e
             | Inr homework_name \<Rightarrow>
                 (case py_get rt homework (ascii ''status'') JNull of
                    Inl e \<Rightarrow> Inl e
                  | Inr homework_status \<Rightarrow>
                      if \<not> hashable homework_status
                      then Inl (TypeError (unhashable_text rt homework_status))
                      else
                        (case verdict_of homework_status of
                           None \<Rightarrow>
                             Inl (ValueError
                                   (msg_unknown_status @ py_str rt homework_status @ ascii ''.''))
                         | Some verdict \<Rightarrow>
                             Inr (status_changed @ py_str rt homework_name @ [34] @
                                  ascii ''. '' @ verdict)))))"

section \<open>The world outside\<close>

text \<open>
  A call into \<^verbatim>\<open>requests\<close> or \<^verbatim>\<open>telegram\<close> returns or raises. Of a raised exception the
  code observes three things: whether it is an instance of the class the surrounding
  \<^verbatim>\<open>except\<close> clause names (\<^verbatim>\<open>requests.exceptions.RequestException\<close> around the request,
  \<^verbatim>\<open>telegram.error.TelegramError\<close> around the send), its \<^verbatim>\<open>str\<close> and its \<^verbatim>\<open>repr\<close>. Only
  subclasses of \<^verbatim>\<open>Exception\<close> are considered.
\<close>

datatype 'a outcome =
    Returns 'a
  | Raises bool ustr ustr

text \<open>The keyword arguments of \<^verbatim>\<open>requests.get\<close>, and the two things read off its result.\<close>

record request =
  url :: ustr
  headers :: json
  params :: json

record response =
  status_code :: int
  json_body :: "json outcome"

section \<open>Fetching\<close>

definition RETRY_PERIOD :: nat where
  "RETRY_PERIOD = 600"

definition ENDPOINT :: ustr where
  "ENDPOINT = ascii ''https://practicum.yandex.ru/api/user_api/homework_statuses/''"

text \<open>
  \<^verbatim>\<open>HEADERS\<close> is built from \<^verbatim>\<open>PRACTICUM_TOKEN\<close>, which is what \<^verbatim>\<open>os.getenv\<close> returned: a string
  or \<^verbatim>\<open>None\<close>.
\<close>

definition HEADERS :: "ustr option \<Rightarrow> json" where
  "HEADERS token =
     JDict [(ascii ''Authorization'',
             JStr (ascii ''OAuth '' @ (case token of None \<Rightarrow> ascii ''None'' | Some t \<Rightarrow> t)))]"

text \<open>
  Lines 73 to 79 of \<^verbatim>\<open>get_api_answer\<close>: \<^verbatim>\<open>timestamp = current_timestamp or int(time.time())\<close>
  and the request built from it; \<open>now\<close> is the reading of the clock.
\<close>

definition params_request :: "ustr option \<Rightarrow> int \<Rightarrow> json \<Rightarrow> request" where
  "params_request token now from_timestamp =
     (let timestamp = (if truthy from_timestamp then from_timestamp else JInt now)
      in \<lparr>url = ENDPOINT,
          headers = HEADERS token,
          params = JDict [(ascii ''from_date'', timestamp)]\<rparr>)"

text \<open>The tail of the three messages, which names the url, the headers and the parameters.\<close>

definition request_text :: "runtime \<Rightarrow> request \<Rightarrow> ustr" where
  "request_text rt rq =
     msg_request @ url rq @ ascii '', '' @ py_str rt (headers rq) @ ascii '', '' @
     py_str rt (params rq) @ ascii ''.''"

text \<open>
  \<^verbatim>\<open>get_api_answer\<close>: the request is made once; an exception of class \<^verbatim>\<open>RequestException\<close>,
  from the request or from decoding the body, is wrapped into \<^verbatim>\<open>WrongResponseCode\<close> together
  with the message, a status other than 200 raises \<^verbatim>\<open>WrongResponseCode\<close> with the message
  alone, and any other exception passes through.
\<close>

definition get_api_answer ::
  "runtime \<Rightarrow> ustr option \<Rightarrow> (request \<Rightarrow> response outcome) \<Rightarrow> int \<Rightarrow> json \<Rightarrow> error + json" where
  "get_api_answer rt token requests_get now from_timestamp =
     (let rq = params_request token now from_timestamp;
          failed = msg_request_failed @ msg_not_200 @ request_text rt rq
      in case requests_get rq of
           Raises is_request_exception s r \<Rightarrow>
             if is_request_exception then Inl (WrongResponseCode failed (Some r))
             else Inl (LibraryError s)
         | Returns resp \<Rightarrow>
             if status_code resp \<noteq> 200
             then Inl (WrongResponseCode
                        (msg_not_200 @ msg_response_code @ py_str rt (JInt (status_code resp)) @
                         ascii ''. '' @ request_text rt rq) None)
             else
               (case json_body resp of
                  Returns v \<Rightarrow> Inr v
                | Raises is_request_exception s r \<Rightarrow>
                    if is_request_exception then Inl (WrongResponseCode failed (Some r))
                    else Inl (LibraryError s)))"

section \<open>Sending and the poll loop\<close>

text \<open>
  What a cycle does that can be seen from outside: calls of \<^verbatim>\<open>bot.send_message\<close> with
  their text, the log records of \<^verbatim>\<open>main\<close> and \<^verbatim>\<open>send_message\<close>, and the sleep. The progress
  lines that \<^verbatim>\<open>get_api_answer\<close>, \<^verbatim>\<open>check_response\<close> and \<^verbatim>\<open>parse_status\<close> log are left out.
\<close>

datatype level = DEBUG | INFO | ERROR

datatype event =
    Log level ustr
  | Send ustr
  | Sleep nat

fun attempts :: "event list \<Rightarrow> ustr list" where
  "attempts [] = []"
| "attempts (Send text # evs) = text # attempts evs"
| "attempts (ev # evs) = attempts evs"

text \<open>
  \<^verbatim>\<open>send_message\<close>: the events of the call and the exception it raises, if any. A
  \<^verbatim>\<open>telegram.error.TelegramError\<close> is logged and becomes the \<^verbatim>\<open>TelegramError\<close> of this program;
  any other exception passes through.
\<close>

definition send_message :: "(ustr \<Rightarrow> unit outcome) \<Rightarrow> ustr \<Rightarrow> event list \<times> error option" where
  "send_message bot_send_message message =
     (case bot_send_message message of
        Returns u \<Rightarrow> ([Log DEBUG msg_send_start, Send message, Log INFO msg_sent], None)
      | Raises is_telegram_error s r \<Rightarrow>
          if is_telegram_error
          then ([Log DEBUG msg_send_start, Send message, Log ERROR msg_send_failed],
                Some (TelegramError (msg_send_failed_with @ s @ ascii ''.'')))
          else ([Log DEBUG msg_send_start, Send message], Some (LibraryError s)))"

text \<open>
  The two variables of the loop, and what the world does during one cycle: the clock read
  in \<^verbatim>\<open>get_api_answer\<close>, the answer to a request, the clock read for the default of
  \<^verbatim>\<open>current_date\<close>, and what sending a given text does.
\<close>

record poll_state =
  current_timestamp :: json
  prev_msg :: ustr

record cycle_env =
  now_fetch :: int
  requests_get :: "request \<Rightarrow> response outcome"
  now_update :: int
  bot_send :: "ustr \<Rightarrow> unit outcome"

text \<open>
  Lines 224 and 232: the state \<^verbatim>\<open>main\<close> enters the loop with. The token check and the start
  message come before the loop and are not part of it.
\<close>

definition initial_state :: "int \<Rightarrow> poll_state" where
  "initial_state now = \<lparr>current_timestamp = JInt now, prev_msg = []\<rparr>"

text \<open>Lines 240 to 244: validation, and the message of the first homework or of none.\<close>

definition response_message :: "runtime \<Rightarrow> json \<Rightarrow> error + ustr" where
  "response_message rt resp =
     (case check_response resp of
        Inl e \<Rightarrow> Inl e
      | Inr homeworks \<Rightarrow>
          (case homeworks of
             [] \<Rightarrow> Inr no_new_statuses
           | homework # others \<Rightarrow> parse_status rt homework))"

text \<open>
  Lines 236 to 244: the fetch, the new \<^verbatim>\<open>current_timestamp\<close>, the message. The state is
  returned with the result, since the timestamp stays assigned when a later line raises.
\<close>

definition compute_message ::
  "runtime \<Rightarrow> ustr option \<Rightarrow> cycle_env \<Rightarrow> poll_state \<Rightarrow> poll_state \<times> (error + ustr)" where
  "compute_message rt token env st =
     (case get_api_answer rt token (requests_get env) (now_fetch env) (current_timestamp st) of
        Inl e \<Rightarrow> (st, Inl e)
      | Inr resp \<Rightarrow>
          (case py_get rt resp (ascii ''current_date'') (JInt (now_update env)) of
             Inl e \<Rightarrow> (st, Inl e)
           | Inr date \<Rightarrow>
               (st\<lparr>current_timestamp := date\<rparr>, response_message rt resp)))"

text \<open>Lines 245 to 249: send a message that differs from the previous one, else log it.\<close>

definition deliver :: "cycle_env \<Rightarrow> poll_state \<Rightarrow> ustr \<Rightarrow> poll_state \<times> event list \<times> error option" where
  "deliver env st message =
     (if message \<noteq> prev_msg st
      then (case send_message (bot_send env) message of
              (evs, Some e) \<Rightarrow> (st, evs, Some e)
            | (evs, None) \<Rightarrow> (st\<lparr>prev_msg := message\<rparr>, evs, None))
      else (st, [Log INFO message], None))"

text \<open>
  Lines 250 to 258, the two handlers. An exception raised by the \<^verbatim>\<open>send_message\<close> inside
  the second handler is raised outside the \<^verbatim>\<open>try\<close> block, so no handler of the statement
  catches it: it is the third component of the result.
\<close>

definition handle_error ::
  "runtime \<Rightarrow> cycle_env \<Rightarrow> poll_state \<Rightarrow> error \<Rightarrow> poll_state \<times> event list \<times> error option" where
  "handle_error rt env st e =
     (let message = failure_prefix @ str_error rt e
      in if NotForSend e then (st, [Log ERROR message], None)
         else if message \<noteq> prev_msg st
         then (case send_message (bot_send env) message of
                 (evs, Some e') \<Rightarrow> (st, Log ERROR message # evs, Some e')
               | (evs, None) \<Rightarrow> (st\<lparr>prev_msg := message\<rparr>, Log ERROR message # evs, None))
         else (st, [Log ERROR message], None))"

text \<open>
  One pass through the \<^verbatim>\<open>try\<close> statement of the loop: the body, a handler when the body
  raised, and the sleep of the \<^verbatim>\<open>finally\<close> clause in every case. The result is the new
  state, the events, and the exception that leaves the statement, if any.
\<close>

definition poll_cycle ::
  "runtime \<Rightarrow> ustr option \<Rightarrow> cycle_env \<Rightarrow> poll_state \<Rightarrow> poll_state \<times> event list \<times> error option" where
  "poll_cycle rt token env st =
     (case compute_message rt token env st of
        (st1, Inr message) \<Rightarrow>
          (case deliver env st1 message of
             (st2, evs, None) \<Rightarrow> (st2, evs @ [Sleep RETRY_PERIOD], None)
           | (st2, evs, Some e) \<Rightarrow>
               (case handle_error rt env st2 e of
                  (st3, evs', escaped) \<Rightarrow> (st3, evs @ evs' @ [Sleep RETRY_PERIOD], escaped)))
      | (st1, Inl e) \<Rightarrow>
          (case handle_error rt env st1 e of
             (st3, evs', escaped) \<Rightarrow> (st3, evs' @ [Sleep RETRY_PERIOD], escaped)))"

text \<open>
  \<^verbatim>\<open>while True\<close>, run for as many cycles as the list gives worlds. An exception that leaves
  a cycle leaves the loop and ends \<^verbatim>\<open>main\<close>; the cycles after it do not happen.
\<close>

fun poll_loop ::
  "runtime \<Rightarrow> ustr option \<Rightarrow> cycle_env list \<Rightarrow> poll_state \<Rightarrow> poll_state \<times> event list \<times> error option" where
  "poll_loop rt token [] st = (st, [], None)"
| "poll_loop rt token (env # envs) st =
     (case poll_cycle rt token env st of
        (st1, evs, Some e) \<Rightarrow> (st1, evs, Some e)
      | (st1, evs, None) \<Rightarrow>
          (case poll_loop rt token envs st1 of
             (st2, evs', escaped) \<Rightarrow> (st2, evs @ evs', escaped)))"

section \<open>A reference interpreter for the examples\<close>

text \<open>
  The theorems hold for every \<open>runtime\<close>. The examples are evaluated with the texts of
  CPython 3.8: the error messages are its own, and so is \<open>cpython_repr\<close> on \<^verbatim>\<open>None\<close>,
  booleans, integers, strings of printable characters without apostrophe or backslash, and
  lists and dicts of these. A float is printed as a placeholder; no example contains one.
\<close>

fun decimal :: "nat \<Rightarrow> ustr" where
  "decimal n = (if n < 10 then [48 + n] else decimal (n div 10) @ [48 + n mod 10])"

declare decimal.simps [simp del]

fun join :: "ustr \<Rightarrow> ustr list \<Rightarrow> ustr" where
  "join sep [] = []"
| "join sep [x] = x"
| "join sep (x # y # ys) = x @ sep @ join sep (y # ys)"

fun cpython_repr :: "json \<Rightarrow> ustr" where
  "cpython_repr JNull = ascii ''None''"
| "cpython_repr (JBool b) = (if b then ascii ''True'' else ascii ''False'')"
| "cpython_repr (JInt i) = (if i < 0 then ascii ''-'' @ decimal (nat (- i)) else decimal (nat i))"
| "cpython_repr (JFloat w) = ascii ''<float>''"
| "cpython_repr (JStr s) = [39] @ s @ [39]"
| "cpython_repr (JList xs) = ascii ''['' @ join (ascii '', '') (map cpython_repr xs) @ ascii '']''"
| "cpython_repr (JDict kvs) =
     ascii ''{'' @
     join (ascii '', '') (map (\<lambda>(k, v). [39] @ k @ [39] @ ascii '': '' @ cpython_repr v) kvs) @
     ascii ''}''"

fun type_name :: "json \<Rightarrow> ustr" where
  "type_name JNull = ascii ''NoneType''"
| "type_name (JBool b) = ascii ''bool''"
| "type_name (JInt i) = ascii ''int''"
| "type_name (JFloat w) = ascii ''float''"
| "type_name (JStr s) = ascii ''str''"
| "type_name (JList xs) = ascii ''list''"
| "type_name (JDict kvs) = ascii ''dict''"

definition cpython :: runtime where
  "cpython =
     \<lparr>py_repr = cpython_repr,
      not_container_text =
        (\<lambda>v. ascii ''argument of type '' @ [39] @ type_name v @ [39] @ ascii '' is not iterable''),
      no_attribute_get_text =
        (\<lambda>v. [39] @ type_name v @ [39] @ ascii '' object has no attribute '' @ [39] @
              ascii ''get'' @ [39]),
      unhashable_text = (\<lambda>v. ascii ''unhashable type: '' @ [39] @ type_name v @ [39])\<rparr>"

definition hw1_approved_text :: ustr where
  (* Izmenilsya status proverki raboty "hw1". Rabota proverena: revyueru vsyo ponravilos. Ura! *)
  "hw1_approved_text =
    [1048, 1079, 1084, 1077, 1085, 1080, 1083, 1089, 1103] @ ascii '' '' @
    [1089, 1090, 1072, 1090, 1091, 1089] @ ascii '' '' @
    [1087, 1088, 1086, 1074, 1077, 1088, 1082, 1080] @ ascii '' '' @
    [1088, 1072, 1073, 1086, 1090, 1099] @ ascii '' '' @ [34] @ ascii ''hw1'' @ [34] @
    ascii ''. '' @ [1056, 1072, 1073, 1086, 1090, 1072] @ ascii '' '' @
    [1087, 1088, 1086, 1074, 1077, 1088, 1077, 1085, 1072] @ ascii '': '' @
    [1088, 1077, 1074, 1100, 1102, 1077, 1088, 1091] @ ascii '' '' @ [1074, 1089, 1105] @
    ascii '' '' @ [1087, 1086, 1085, 1088, 1072, 1074, 1080, 1083, 1086, 1089, 1100] @
    ascii ''. '' @ [1059, 1088, 1072] @ ascii ''!''"

text \<open>
  The worlds of the examples: a token, an API that answers every request with status 200 and
  a given body, with a given status, with the parameters of the request as body, with a
  timeout, or with status 200 and a body that is no JSON; a messenger that works, and one
  whose every call times out. For the body that is no JSON, \<^verbatim>\<open>response.json()\<close> raises
  \<^verbatim>\<open>json.JSONDecodeError\<close>, a \<^verbatim>\<open>ValueError\<close> that is no \<^verbatim>\<open>RequestException\<close>, as it does in
  \<^verbatim>\<open>requests\<close> before version 2.27.
\<close>

definition example_token :: "ustr option" where
  "example_token = Some (ascii ''secret'')"

definition api_returns :: "json \<Rightarrow> request \<Rightarrow> response outcome" where
  "api_returns body rq = Returns \<lparr>status_code = 200, json_body = Returns body\<rparr>"

definition api_status :: "int \<Rightarrow> request \<Rightarrow> response outcome" where
  "api_status code rq = Returns \<lparr>status_code = code, json_body = Returns JNull\<rparr>"

definition api_echo :: "request \<Rightarrow> response outcome" where
  "api_echo rq = Returns \<lparr>status_code = 200, json_body = Returns (params rq)\<rparr>"

definition api_timeout :: "request \<Rightarrow> response outcome" where
  "api_timeout rq = Raises True (ascii ''timed out'') (ascii ''ReadTimeout()'')"

definition decode_error_text :: ustr where
  "decode_error_text = ascii ''Expecting value: line 1 column 1 (char 0)''"

definition api_bad_json :: "request \<Rightarrow> response outcome" where
  "api_bad_json rq =
     Returns \<lparr>status_code = 200,
              json_body =
                Raises False decode_error_text
                  (ascii ''JSONDecodeError('' @ [39] @ decode_error_text @ [39] @ ascii '')'')\<rparr>"

definition telegram_ok :: "ustr \<Rightarrow> unit outcome" where
  "telegram_ok text = Returns ()"

definition telegram_down :: "ustr \<Rightarrow> unit outcome" where
  "telegram_down text = Raises True (ascii ''Timed out'') (ascii ''TimedOut()'')"

definition example_response :: json where
  "example_response =
     JDict [(ascii ''homeworks'',
             JList [JDict [(ascii ''homework_name'', JStr (ascii ''hw1'')),
                           (ascii ''status'', JStr (ascii ''approved''))]]),
            (ascii ''current_date'', JInt 1700000300)]"

definition no_homeworks_response :: "int \<Rightarrow> json" where
  "no_homeworks_response date =
     JDict [(ascii ''homeworks'', JList []), (ascii ''current_date'', JInt date)]"

definition example_env ::
  "(request \<Rightarrow> response outcome) \<Rightarrow> (ustr \<Rightarrow> unit outcome) \<Rightarrow> cycle_env" where
  "example_env api telegram =
     \<lparr>now_fetch = 1700000600, requests_get = api, now_update = 1700000601, bot_send = telegram\<rparr>"

text \<open>The tail of the messages of \<^verbatim>\<open>get_api_answer\<close> for the token and timestamp 1700000000.\<close>

definition example_request_text :: ustr where
  "example_request_text =
     msg_request @ ENDPOINT @ ascii '', {'' @ [39] @ ascii ''Authorization'' @ [39] @
     ascii '': '' @ [39] @ ascii ''OAuth secret'' @ [39] @ ascii ''}, {'' @ [39] @
     ascii ''from_date'' @ [39] @ ascii '': 1700000000}.''"

section \<open>Properties of validation and formatting\<close>

lemma ascii_simps:
  "ascii [] = []"
  "ascii (c # cs) = of_char c # ascii cs"
  by (simp_all add: ascii_def)

lemma map_of_Some_key: "map_of kvs k = Some v \<Longrightarrow> k \<in> set (map fst kvs)"
  by (metis domI dom_map_of_conv_image_fst set_map)

text \<open>
  C5. A response that is a dict but lacks \<^verbatim>\<open>homeworks\<close> or \<^verbatim>\<open>current_date\<close> makes
  \<^verbatim>\<open>check_response\<close> fail with \<^verbatim>\<open>EmptyResponseFromAPI\<close>, which is a \<^verbatim>\<open>NotForSend\<close> error, and
  never with a \<^verbatim>\<open>TypeError\<close>.
\<close>

theorem check_response_missing_key:
  assumes "ascii ''homeworks'' \<notin> set (map fst kvs) \<or> ascii ''current_date'' \<notin> set (map fst kvs)"
  shows "check_response (JDict kvs) = Inl (EmptyResponseFromAPI msg_missing_keys)
         \<and> NotForSend (EmptyResponseFromAPI msg_missing_keys)
         \<and> (\<forall>m. check_response (JDict kvs) \<noteq> Inl (TypeError m))"
  using assms by (auto simp: ascii_simps)

theorem check_response_missing_key_witness:
  "check_response (JDict [(ascii ''homeworks'', JList [])])
     = Inl (EmptyResponseFromAPI msg_missing_keys)
   \<and> check_response (JDict [(ascii ''current_date'', JInt 5)])
     = Inl (EmptyResponseFromAPI msg_missing_keys)
   \<and> check_response (JDict []) = Inl (EmptyResponseFromAPI msg_missing_keys)"
  using check_response_missing_key [of "[(ascii ''homeworks'', JList [])]"]
        check_response_missing_key [of "[(ascii ''current_date'', JInt 5)]"]
        check_response_missing_key [of "[]"]
  by (simp add: ascii_simps)

text \<open>
  C6. For a dict with both keys, \<^verbatim>\<open>check_response\<close> returns the value of \<^verbatim>\<open>homeworks\<close>
  unchanged when it is a list (the empty list included) and fails with a \<^verbatim>\<open>TypeError\<close> when
  it is anything else.
\<close>

theorem check_response_both_keys:
  assumes "map_of kvs (ascii ''homeworks'') = Some h"
      and "ascii ''current_date'' \<in> set (map fst kvs)"
  shows "(\<forall>homeworks. h = JList homeworks \<longrightarrow> check_response (JDict kvs) = Inr homeworks)
         \<and> ((\<forall>homeworks. h \<noteq> JList homeworks) \<longrightarrow>
              check_response (JDict kvs) = Inl (TypeError msg_not_list))"
proof -
  from assms(1) have "ascii ''homeworks'' \<in> set (map fst kvs)"
    by (rule map_of_Some_key)
  with assms show ?thesis
    by (cases h) simp_all
qed

theorem check_response_both_keys_witness:
  "check_response (JDict [(ascii ''homeworks'', JList [JInt 1, JNull]),
                          (ascii ''current_date'', JInt 7)])
     = Inr [JInt 1, JNull]
   \<and> check_response (JDict [(ascii ''homeworks'', JList []), (ascii ''current_date'', JInt 7)])
     = Inr []
   \<and> check_response (JDict [(ascii ''homeworks'', JStr (ascii ''abc'')),
                            (ascii ''current_date'', JInt 7)])
     = Inl (TypeError msg_not_list)"
  using check_response_both_keys
          [of "[(ascii ''homeworks'', JList [JInt 1, JNull]), (ascii ''current_date'', JInt 7)]"
              "JList [JInt 1, JNull]"]
        check_response_both_keys
          [of "[(ascii ''homeworks'', JList []), (ascii ''current_date'', JInt 7)]" "JList []"]
        check_response_both_keys
          [of "[(ascii ''homeworks'', JStr (ascii ''abc'')), (ascii ''current_date'', JInt 7)]"
              "JStr (ascii ''abc'')"]
  by (simp add: ascii_simps)

text \<open>\<^verbatim>\<open>parse_status\<close> on a dict, with the two lookups read off the items.\<close>

lemma parse_status_dict:
  "parse_status rt (JDict kvs) =
     (if ascii ''homework_name'' \<notin> set (map fst kvs) then Inl (KeyError msg_no_homework_name)
      else let homework_name =
                 (case map_of kvs (ascii ''homework_name'') of None \<Rightarrow> JNull | Some v \<Rightarrow> v);
               homework_status =
                 (case map_of kvs (ascii ''status'') of None \<Rightarrow> JNull | Some v \<Rightarrow> v)
           in if \<not> hashable homework_status
              then Inl (TypeError (unhashable_text rt homework_status))
              else (case verdict_of homework_status of
                      None \<Rightarrow>
                        Inl (ValueError
                              (msg_unknown_status @ py_str rt homework_status @ ascii ''.''))
                    | Some verdict \<Rightarrow>
                        Inr (status_changed @ py_str rt homework_name @ [34] @ ascii ''. '' @
                             verdict)))"
  unfolding parse_status_def Let_def py_in.simps py_get.simps by simp

lemma parse_status_ValueError_dict:
  assumes "parse_status rt homework = Inl (ValueError m)"
  shows "\<exists>kvs. homework = JDict kvs \<and> ascii ''homework_name'' \<in> set (map fst kvs)"
proof (cases homework)
  case (JDict kvs)
  with assms show ?thesis
    by (auto simp: parse_status_dict split: if_splits)
qed (use assms in \<open>auto simp: parse_status_def split: if_splits\<close>)

lemma verdict_of_simps:
  "verdict_of (JStr (ascii ''approved'')) = Some verdict_approved"
  "verdict_of (JStr (ascii ''reviewing'')) = Some verdict_reviewing"
  "verdict_of (JStr (ascii ''rejected'')) = Some verdict_rejected"
  by (simp_all add: HOMEWORK_VERDICTS_def ascii_simps)

lemma verdict_of_None:
  "v \<noteq> JStr (ascii ''approved'') \<Longrightarrow> v \<noteq> JStr (ascii ''reviewing'') \<Longrightarrow>
   v \<noteq> JStr (ascii ''rejected'') \<Longrightarrow> verdict_of v = None"
  by (cases v) (simp_all add: HOMEWORK_VERDICTS_def ascii_simps)

text \<open>
  What \<^verbatim>\<open>parse_status\<close> does with a record that has \<^verbatim>\<open>homework_name\<close>. When the status
  (\<^verbatim>\<open>None\<close> when the key is absent) is \<^verbatim>\<open>approved\<close>, \<^verbatim>\<open>reviewing\<close> or \<^verbatim>\<open>rejected\<close>, it returns
  the fixed opening, the name, and the verdict text of that status. For any other status it
  fails: with a \<^verbatim>\<open>ValueError\<close> when the status can be hashed (a string, a number, a boolean,
  \<^verbatim>\<open>None\<close>), and with the \<^verbatim>\<open>TypeError\<close> of the membership test when it is a list or a dict.
\<close>

lemma parse_status_verdicts:
  assumes "map_of kvs (ascii ''homework_name'') = Some name"
      and "py_get rt (JDict kvs) (ascii ''status'') JNull = Inr status"
  shows "(status = JStr (ascii ''approved'') \<longrightarrow>
            parse_status rt (JDict kvs) =
              Inr (status_changed @ py_str rt name @ [34] @ ascii ''. '' @ verdict_approved))
       \<and> (status = JStr (ascii ''reviewing'') \<longrightarrow>
            parse_status rt (JDict kvs) =
              Inr (status_changed @ py_str rt name @ [34] @ ascii ''. '' @ verdict_reviewing))
       \<and> (status = JStr (ascii ''rejected'') \<longrightarrow>
            parse_status rt (JDict kvs) =
              Inr (status_changed @ py_str rt name @ [34] @ ascii ''. '' @ verdict_rejected))
       \<and> (status \<notin> {JStr (ascii ''approved''), JStr (ascii ''reviewing''),
                     JStr (ascii ''rejected'')} \<longrightarrow>
            parse_status rt (JDict kvs) =
              (if hashable status
               then Inl (ValueError (msg_unknown_status @ py_str rt status @ ascii ''.''))
               else Inl (TypeError (unhashable_text rt status))))"
proof -
  from assms(1) have key: "ascii ''homework_name'' \<in> set (map fst kvs)"
    by (rule map_of_Some_key)
  have ps: "parse_status rt (JDict kvs) =
     (if \<not> hashable status then Inl (TypeError (unhashable_text rt status))
      else (case verdict_of status of
              None \<Rightarrow> Inl (ValueError (msg_unknown_status @ py_str rt status @ ascii ''.''))
            | Some verdict \<Rightarrow>
                Inr (status_changed @ py_str rt name @ [34] @ ascii ''. '' @ verdict)))"
    using key assms by (auto simp add: parse_status_dict)
  show ?thesis
    unfolding ps
    by (auto simp add: verdict_of_simps verdict_of_None simp del: verdict_of.simps)
qed

lemma parse_status_verdicts_example:
  "parse_status cpython (JDict [(ascii ''homework_name'', JStr (ascii ''hw1'')),
                                (ascii ''status'', JStr (ascii ''approved''))])
     = Inr hw1_approved_text
   \<and> parse_status cpython (JDict [(ascii ''homework_name'', JStr (ascii ''hw1'')),
                                  (ascii ''status'', JStr (ascii ''pending''))])
     = Inl (ValueError (msg_unknown_status @ ascii ''pending.''))
   \<and> parse_status cpython (JDict [(ascii ''homework_name'', JStr (ascii ''hw1''))])
     = Inl (ValueError (msg_unknown_status @ ascii ''None.''))"
  using parse_status_verdicts
          [of "[(ascii ''homework_name'', JStr (ascii ''hw1'')),
                (ascii ''status'', JStr (ascii ''approved''))]"
              "JStr (ascii ''hw1'')" cpython "JStr (ascii ''approved'')"]
        parse_status_verdicts
          [of "[(ascii ''homework_name'', JStr (ascii ''hw1'')),
                (ascii ''status'', JStr (ascii ''pending''))]"
              "JStr (ascii ''hw1'')" cpython "JStr (ascii ''pending'')"]
        parse_status_verdicts
          [of "[(ascii ''homework_name'', JStr (ascii ''hw1''))]"
              "JStr (ascii ''hw1'')" cpython JNull]
  by (simp add: hw1_approved_text_def status_changed_def verdict_approved_def cpython_def
        ascii_simps)

text \<open>
  C3. For a record with \<^verbatim>\<open>homework_name\<close>, \<^verbatim>\<open>parse_status\<close> is to return the name and the verdict
  text for the three known statuses and to fail with \<^verbatim>\<open>ValueError\<close> for every other status,
  as its docstring says too (\<^verbatim>\<open>ValueError: If the status of the homework is not recognized\<close>).
  The code does so for every status that can be hashed, but not for a status that is a list:
  the membership test of line 162 raises \<^verbatim>\<open>TypeError\<close> before line 163 can raise the
  \<^verbatim>\<open>ValueError\<close>.
\<close>

theorem parse_status_list_status_type_error:
  "parse_status cpython (JDict [(ascii ''homework_name'', JStr (ascii ''hw1'')),
                                (ascii ''status'', JList [])])
     = Inl (TypeError (ascii ''unhashable type: '' @ [39] @ ascii ''list'' @ [39]))"
  by (simp add: parse_status_def cpython_def ascii_simps)

text \<open>
  C10. \<^verbatim>\<open>parse_status\<close> tests for \<^verbatim>\<open>homework_name\<close> before it looks at the status: a record
  without the key fails with \<^verbatim>\<open>KeyError\<close> whatever its status is, and a \<^verbatim>\<open>ValueError\<close> comes
  only from a record that has the key.
\<close>

theorem parse_status_key_before_status:
  "(ascii ''homework_name'' \<notin> set (map fst kvs) \<longrightarrow>
      parse_status rt (JDict kvs) = Inl (KeyError msg_no_homework_name))
   \<and> (\<forall>m. parse_status rt homework = Inl (ValueError m) \<longrightarrow>
         (\<exists>kvs'. homework = JDict kvs' \<and> ascii ''homework_name'' \<in> set (map fst kvs')))"
  using parse_status_ValueError_dict by (simp add: parse_status_dict)

theorem parse_status_key_before_status_witness:
  "parse_status cpython (JDict [(ascii ''status'', JStr (ascii ''bogus''))])
     = Inl (KeyError msg_no_homework_name)
   \<and> parse_status cpython (JDict []) = Inl (KeyError msg_no_homework_name)
   \<and> parse_status cpython (JDict [(ascii ''homework_name'', JStr (ascii ''hw1'')),
                                  (ascii ''status'', JStr (ascii ''bogus''))])
     = Inl (ValueError (msg_unknown_status @ ascii ''bogus.''))
   \<and> (\<exists>kvs'. JDict [(ascii ''homework_name'', JStr (ascii ''hw1'')),
                     (ascii ''status'', JStr (ascii ''bogus''))] = JDict kvs'
           \<and> ascii ''homework_name'' \<in> set (map fst kvs'))"
proof -
  have v: "parse_status cpython (JDict [(ascii ''homework_name'', JStr (ascii ''hw1'')),
                                        (ascii ''status'', JStr (ascii ''bogus''))])
             = Inl (ValueError (msg_unknown_status @ ascii ''bogus.''))"
    by (simp add: parse_status_dict HOMEWORK_VERDICTS_def ascii_simps)
  show ?thesis
    using v
      parse_status_key_before_status
        [of "[(ascii ''status'', JStr (ascii ''bogus''))]" cpython
            "JDict [(ascii ''homework_name'', JStr (ascii ''hw1'')),
                    (ascii ''status'', JStr (ascii ''bogus''))]"]
      parse_status_key_before_status
        [of "[]" cpython "JNull"]
    by (simp add: ascii_simps)
qed

section \<open>Properties of fetching\<close>

lemma cpython_simps:
  "py_repr cpython = cpython_repr"
  "py_str cpython (JInt i) = cpython_repr (JInt i)"
  by (simp_all add: cpython_def)

lemma example_env_simps:
  "now_fetch (example_env api telegram) = 1700000600"
  "requests_get (example_env api telegram) = api"
  "now_update (example_env api telegram) = 1700000601"
  "bot_send (example_env api telegram) = telegram"
  by (simp_all add: example_env_def)

lemma example_request:
  "request_text cpython (params_request example_token 1700000600 (JInt 1700000000)) =
     example_request_text"
  by (simp add: request_text_def params_request_def example_request_text_def HEADERS_def
        example_token_def cpython_def decimal.simps ascii_simps)

lemma get_api_answer_api_returns:
  "get_api_answer rt token (api_returns body) now ts = Inr body"
  by (simp add: get_api_answer_def api_returns_def Let_def)

lemma get_api_answer_api_status:
  "code \<noteq> 200 \<Longrightarrow>
   \<exists>m. get_api_answer rt token (api_status code) now ts = Inl (WrongResponseCode m None)"
  by (simp add: get_api_answer_def api_status_def Let_def)

text \<open>
  C9. \<^verbatim>\<open>get_api_answer\<close> sends the clock reading as \<^verbatim>\<open>from_date\<close> when its argument is 0 or
  any other false value, and the argument itself when it is true. What is sent is read off
  an API that answers with status 200 and a body \<open>f rq\<close> computed from the request \<open>rq\<close> it
  receives: the function returns \<open>f\<close> of the request with the endpoint, the headers and
  that \<^verbatim>\<open>from_date\<close>. The request built this way is the only one the function makes.
\<close>

theorem get_api_answer_from_date:
  "get_api_answer rt token
      (\<lambda>rq. Returns \<lparr>status_code = 200, json_body = Returns (f rq)\<rparr>) now from_timestamp
     = Inr (f \<lparr>url = ENDPOINT, headers = HEADERS token,
                params = JDict [(ascii ''from_date'',
                                 if truthy from_timestamp then from_timestamp else JInt now)]\<rparr>)
   \<and> get_api_answer rt token
        (\<lambda>rq. Returns \<lparr>status_code = 200, json_body = Returns (f rq)\<rparr>) now (JInt 0)
     = Inr (f \<lparr>url = ENDPOINT, headers = HEADERS token,
                params = JDict [(ascii ''from_date'', JInt now)]\<rparr>)
   \<and> params (params_request token now from_timestamp) =
     JDict [(ascii ''from_date'', if truthy from_timestamp then from_timestamp else JInt now)]
   \<and> params (params_request token now (JInt 0)) = JDict [(ascii ''from_date'', JInt now)]
   \<and> (\<forall>get'.
         get' (params_request token now from_timestamp) =
         get (params_request token now from_timestamp) \<longrightarrow>
         get_api_answer rt token get' now from_timestamp =
         get_api_answer rt token get now from_timestamp)"
  by (simp add: params_request_def get_api_answer_def Let_def)

theorem get_api_answer_from_date_witness:
  "get_api_answer cpython example_token api_echo 1700000000 (JInt 0)
     = Inr (JDict [(ascii ''from_date'', JInt 1700000000)])
   \<and> get_api_answer cpython example_token api_echo 1700000000 JNull
     = Inr (JDict [(ascii ''from_date'', JInt 1700000000)])
   \<and> get_api_answer cpython example_token api_echo 1700000000 (JFloat 0x8000000000000000)
     = Inr (JDict [(ascii ''from_date'', JInt 1700000000)])
   \<and> get_api_answer cpython example_token api_echo 1700000000 (JInt 1600000000)
     = Inr (JDict [(ascii ''from_date'', JInt 1600000000)])"
proof -
  have echo: "api_echo = (\<lambda>rq. Returns \<lparr>status_code = 200, json_body = Returns (params rq)\<rparr>)"
    by (rule ext) (simp add: api_echo_def)
  show ?thesis
    unfolding echo
    using get_api_answer_from_date
            [where token = example_token and now = 1700000000 and from_timestamp = "JInt 0"
               and f = params and get = api_echo and rt = cpython]
          get_api_answer_from_date
            [where token = example_token and now = 1700000000 and from_timestamp = "JNull"
               and f = params and get = api_echo and rt = cpython]
          get_api_answer_from_date
            [where token = example_token and now = 1700000000
               and from_timestamp = "JFloat 0x8000000000000000"
               and f = params and get = api_echo and rt = cpython]
          get_api_answer_from_date
            [where token = example_token and now = 1700000000
               and from_timestamp = "JInt 1600000000"
               and f = params and get = api_echo and rt = cpython]
    by simp
qed

section \<open>Properties of the poll loop\<close>

lemma attempts_append: "attempts (xs @ ys) = attempts xs @ attempts ys"
  by (induction xs rule: attempts.induct) simp_all

lemma send_message_shape: "\<exists>evs r. send_message b m = (evs, r) \<and> attempts evs = [m]"
  by (simp add: send_message_def split: outcome.splits)

lemma handle_error_sendable:
  assumes "\<not> NotForSend e"
  shows "attempts (fst (snd (handle_error rt env st e))) =
           (if failure_prefix @ str_error rt e \<noteq> prev_msg st
            then [failure_prefix @ str_error rt e] else [])"
    and "Log ERROR (failure_prefix @ str_error rt e) \<in> set (fst (snd (handle_error rt env st e)))"
proof -
  obtain evs r where sm: "send_message (bot_send env) (failure_prefix @ str_error rt e) = (evs, r)"
    and at: "attempts evs = [failure_prefix @ str_error rt e]"
    using send_message_shape by blast
  show "attempts (fst (snd (handle_error rt env st e))) =
           (if failure_prefix @ str_error rt e \<noteq> prev_msg st
            then [failure_prefix @ str_error rt e] else [])"
    using assms sm at by (cases r) (simp_all add: handle_error_def Let_def)
  show "Log ERROR (failure_prefix @ str_error rt e) \<in> set (fst (snd (handle_error rt env st e)))"
    using assms sm by (cases r) (simp_all add: handle_error_def Let_def)
qed

lemma poll_cycle_fetch_error:
  assumes "get_api_answer rt token (requests_get env) (now_fetch env) (current_timestamp st) = Inl e"
  shows "poll_cycle rt token env st =
           (case handle_error rt env st e of
              (st3, evs', escaped) \<Rightarrow> (st3, evs' @ [Sleep RETRY_PERIOD], escaped))"
  using assms by (simp add: poll_cycle_def compute_message_def)

lemma poll_cycle_message:
  assumes "compute_message rt token env st = (st1, Inr m)"
  shows "poll_cycle rt token env st =
          (case deliver env st1 m of
             (st2, evs, None) \<Rightarrow> (st2, evs @ [Sleep RETRY_PERIOD], None)
           | (st2, evs, Some e) \<Rightarrow>
               (case handle_error rt env st2 e of
                  (st3, evs', escaped) \<Rightarrow> (st3, evs @ evs' @ [Sleep RETRY_PERIOD], escaped)))"
  using assms by (simp add: poll_cycle_def)

lemma compute_message_prev_msg:
  "compute_message rt token env st = (st1, r) \<Longrightarrow> prev_msg st1 = prev_msg st"
  by (auto simp: compute_message_def split: sum.splits)

lemma parse_status_Inr:
  "parse_status rt h = Inr m \<Longrightarrow> \<exists>x. m = status_changed @ x"
  by (auto simp: parse_status_def split: sum.splits if_splits option.splits)

lemma response_message_Inr:
  assumes "response_message rt resp = Inr m"
  shows "m = no_new_statuses \<or> (\<exists>x. m = status_changed @ x)"
  using assms parse_status_Inr
  by (auto simp: response_message_def split: sum.splits list.splits)

lemma compute_message_Inr:
  assumes "compute_message rt token env st = (st1, Inr m)"
  shows "m = no_new_statuses \<or> (\<exists>x. m = status_changed @ x)"
  using assms response_message_Inr
  by (auto simp: compute_message_def split: sum.splits)

lemma failure_text_not_message:
  assumes "m = no_new_statuses \<or> (\<exists>x. m = status_changed @ x)"
  shows "failure_prefix @ t \<noteq> m"
proof -
  have "hd (failure_prefix @ t) = 1057"
    by (simp add: failure_prefix_def)
  moreover have "hd m = 1053 \<or> hd m = 1048"
    using assms by (auto simp: no_new_statuses_def status_changed_def)
  ultimately show ?thesis by auto
qed

lemma poll_cycle_quiet:
  assumes "compute_message rt token env st = (st1, Inr m)" and "m = prev_msg st"
  shows "poll_cycle rt token env st = (st1, [Log INFO m, Sleep RETRY_PERIOD], None)"
  using assms compute_message_prev_msg [OF assms(1)]
  by (simp add: poll_cycle_message [OF assms(1)] deliver_def)

lemma poll_cycle_delivered:
  assumes "compute_message rt token env st = (st1, Inr m)" and "m \<noteq> prev_msg st"
      and "bot_send env m = Returns ()"
  shows "poll_cycle rt token env st =
           (st1\<lparr>prev_msg := m\<rparr>,
            [Log DEBUG msg_send_start, Send m, Log INFO msg_sent, Sleep RETRY_PERIOD], None)"
  using assms compute_message_prev_msg [OF assms(1)]
  by (simp add: poll_cycle_message [OF assms(1)] deliver_def send_message_def)

lemma poll_cycle_telegram_error:
  assumes "compute_message rt token env st = (st1, Inr m)" and "m \<noteq> prev_msg st"
      and "bot_send env m = Raises True s r"
  shows "poll_cycle rt token env st =
           (st1,
            [Log DEBUG msg_send_start, Send m, Log ERROR msg_send_failed,
             Log ERROR (failure_prefix @
                        str_error rt (TelegramError (msg_send_failed_with @ s @ ascii ''.''))),
             Sleep RETRY_PERIOD],
            None)"
  using assms compute_message_prev_msg [OF assms(1)]
  by (simp add: poll_cycle_message [OF assms(1)] deliver_def send_message_def
        handle_error_def Let_def)

lemma example_texts_nonempty:
  "hw1_approved_text \<noteq> []" "no_new_statuses \<noteq> []" "failure_prefix @ t \<noteq> []"
  by (simp_all add: hw1_approved_text_def no_new_statuses_def failure_prefix_def)

lemma response_message_example:
  "response_message cpython example_response = Inr hw1_approved_text"
  by (simp add: response_message_def example_response_def parse_status_dict
        HOMEWORK_VERDICTS_def hw1_approved_text_def status_changed_def verdict_approved_def
        ascii_simps)

lemma response_message_no_homeworks:
  "response_message rt (no_homeworks_response date) = Inr no_new_statuses"
  by (simp add: response_message_def no_homeworks_response_def ascii_simps)

lemma compute_message_example:
  "compute_message cpython example_token (example_env (api_returns example_response) telegram) st
     = (st\<lparr>current_timestamp := JInt 1700000300\<rparr>, Inr hw1_approved_text)"
proof -
  have "py_get cpython example_response (ascii ''current_date'') (JInt 1700000601)
          = Inr (JInt 1700000300)"
    by (simp add: example_response_def ascii_simps)
  then show ?thesis
    by (simp add: compute_message_def example_env_def get_api_answer_api_returns
          response_message_example)
qed

lemma compute_message_no_homeworks:
  "compute_message rt token (example_env (api_returns (no_homeworks_response date)) telegram) st
     = (st\<lparr>current_timestamp := JInt date\<rparr>, Inr no_new_statuses)"
proof -
  have "py_get rt (no_homeworks_response date) (ascii ''current_date'') (JInt 1700000601)
          = Inr (JInt date)"
    by (simp add: no_homeworks_response_def ascii_simps)
  then show ?thesis
    by (simp add: compute_message_def example_env_def get_api_answer_api_returns
          response_message_no_homeworks)
qed

text \<open>
  A status other than 200, and a \<^verbatim>\<open>RequestException\<close> raised by the request or by decoding
  the body, come out of \<^verbatim>\<open>get_api_answer\<close> as \<^verbatim>\<open>WrongResponseCode\<close> with a message that names
  the request (and the status). \<^verbatim>\<open>WrongResponseCode\<close> is no \<^verbatim>\<open>NotForSend\<close> error: the cycle logs
  the failure text and attempts to send it, unless it equals the previous message.
\<close>

lemma get_api_answer_wrong_response:
  assumes "rq = params_request token (now_fetch env) (current_timestamp st)"
      and "answer = get_api_answer rt token (requests_get env) (now_fetch env) (current_timestamp st)"
  shows "(requests_get env rq = Returns resp \<and> status_code resp \<noteq> 200 \<longrightarrow>
            answer = Inl (WrongResponseCode
                           (msg_not_200 @ msg_response_code @ py_str rt (JInt (status_code resp)) @
                            ascii ''. '' @ request_text rt rq) None))
       \<and> (requests_get env rq = Raises True s r \<longrightarrow>
            answer = Inl (WrongResponseCode
                           (msg_request_failed @ msg_not_200 @ request_text rt rq) (Some r)))
       \<and> (requests_get env rq = Returns resp \<and> status_code resp = 200 \<and>
          json_body resp = Raises True s r \<longrightarrow>
            answer = Inl (WrongResponseCode
                           (msg_request_failed @ msg_not_200 @ request_text rt rq) (Some r)))
       \<and> \<not> NotForSend (WrongResponseCode m cause)
       \<and> (answer = Inl (WrongResponseCode m cause) \<longrightarrow>
            Log ERROR (failure_prefix @ str_error rt (WrongResponseCode m cause))
              \<in> set (fst (snd (poll_cycle rt token env st)))
            \<and> attempts (fst (snd (poll_cycle rt token env st))) =
                (if failure_prefix @ str_error rt (WrongResponseCode m cause) \<noteq> prev_msg st
                 then [failure_prefix @ str_error rt (WrongResponseCode m cause)] else []))"
proof -
  have a: "requests_get env rq = Returns resp \<and> status_code resp \<noteq> 200 \<longrightarrow>
            answer = Inl (WrongResponseCode
                           (msg_not_200 @ msg_response_code @ py_str rt (JInt (status_code resp)) @
                            ascii ''. '' @ request_text rt rq) None)"
    unfolding assms by (simp add: get_api_answer_def Let_def)
  have b: "requests_get env rq = Raises True s r \<longrightarrow>
            answer = Inl (WrongResponseCode
                           (msg_request_failed @ msg_not_200 @ request_text rt rq) (Some r))"
    unfolding assms by (simp add: get_api_answer_def Let_def)
  have c: "requests_get env rq = Returns resp \<and> status_code resp = 200 \<and>
          json_body resp = Raises True s r \<longrightarrow>
            answer = Inl (WrongResponseCode
                           (msg_request_failed @ msg_not_200 @ request_text rt rq) (Some r))"
    unfolding assms by (simp add: get_api_answer_def Let_def)
  have d: "\<not> NotForSend (WrongResponseCode m cause)"
    by simp
  have e: "answer = Inl (WrongResponseCode m cause) \<longrightarrow>
            Log ERROR (failure_prefix @ str_error rt (WrongResponseCode m cause))
              \<in> set (fst (snd (poll_cycle rt token env st)))
            \<and> attempts (fst (snd (poll_cycle rt token env st))) =
                (if failure_prefix @ str_error rt (WrongResponseCode m cause) \<noteq> prev_msg st
                 then [failure_prefix @ str_error rt (WrongResponseCode m cause)] else [])"
  proof
    assume "answer = Inl (WrongResponseCode m cause)"
    then have pc: "poll_cycle rt token env st =
           (case handle_error rt env st (WrongResponseCode m cause) of
              (st3, evs', escaped) \<Rightarrow> (st3, evs' @ [Sleep RETRY_PERIOD], escaped))"
      unfolding assms by (rule poll_cycle_fetch_error [OF sym, OF sym])
    show "Log ERROR (failure_prefix @ str_error rt (WrongResponseCode m cause))
              \<in> set (fst (snd (poll_cycle rt token env st)))
            \<and> attempts (fst (snd (poll_cycle rt token env st))) =
                (if failure_prefix @ str_error rt (WrongResponseCode m cause) \<noteq> prev_msg st
                 then [failure_prefix @ str_error rt (WrongResponseCode m cause)] else [])"
      unfolding pc
      using handle_error_sendable [OF d, of rt env st]
      by (cases "handle_error rt env st (WrongResponseCode m cause)")
         (simp add: attempts_append split del: if_split)
  qed
  from a b c d e show ?thesis by blast
qed

lemma get_api_answer_wrong_response_example:
  "get_api_answer cpython example_token (api_status 503) 1700000600 (JInt 1700000000)
     = Inl (WrongResponseCode
             (msg_not_200 @ msg_response_code @ ascii ''503. '' @ example_request_text) None)
   \<and> get_api_answer cpython example_token api_timeout 1700000600 (JInt 1700000000)
     = Inl (WrongResponseCode (msg_request_failed @ msg_not_200 @ example_request_text)
             (Some (ascii ''ReadTimeout()'')))
   \<and> attempts (fst (snd (poll_cycle cpython example_token
                           (example_env (api_status 503) telegram_ok)
                           (initial_state 1700000000))))
     = [failure_prefix @ msg_not_200 @ msg_response_code @ ascii ''503. '' @
        example_request_text]"
proof -
  let ?rq = "params_request example_token 1700000600 (JInt 1700000000)"
  let ?st = "initial_state 1700000000"
  let ?m = "msg_not_200 @ msg_response_code @ ascii ''503. '' @ example_request_text"
  have r503: "cpython_repr (JInt 503) = ascii ''503''"
    by (simp add: decimal.simps ascii_simps)
  have ne: "failure_prefix @ ?m \<noteq> []"
    by (simp add: failure_prefix_def)
  note w503 = get_api_answer_wrong_response
      [where env = "example_env (api_status 503) telegram_ok" and st = ?st
         and token = example_token and rt = cpython and rq = ?rq
         and resp = "\<lparr>status_code = 503, json_body = Returns JNull\<rparr>"
         and m = ?m and cause = None,
       OF _ refl]
  note wto = get_api_answer_wrong_response
      [where env = "example_env api_timeout telegram_ok" and st = ?st
         and token = example_token and rt = cpython and rq = ?rq
         and s = "ascii ''timed out''" and r = "ascii ''ReadTimeout()''",
       OF _ refl]
  have a: "get_api_answer cpython example_token (api_status 503) 1700000600 (JInt 1700000000)
     = Inl (WrongResponseCode ?m None)"
    using w503 example_request r503
    by (simp add: example_env_def api_status_def initial_state_def cpython_simps ascii_simps)
  have b: "get_api_answer cpython example_token api_timeout 1700000600 (JInt 1700000000)
     = Inl (WrongResponseCode (msg_request_failed @ msg_not_200 @ example_request_text)
             (Some (ascii ''ReadTimeout()'')))"
    using wto example_request
    by (simp add: example_env_def api_timeout_def initial_state_def)
  have d: "attempts (fst (snd (poll_cycle cpython example_token
                           (example_env (api_status 503) telegram_ok) ?st)))
     = [failure_prefix @ ?m]"
    using w503 a ne
    by (simp add: example_env_def initial_state_def)
  from a b d show ?thesis by simp
qed

text \<open>
  C4. Every fault of the fetch is to come out of \<^verbatim>\<open>get_api_answer\<close> as \<^verbatim>\<open>WrongResponseCode\<close>, a
  body that is no JSON included; the docstring says the same (\<^verbatim>\<open>WrongResponseCode\<close> when
  an exception occurs during the request or response handling), and \<^verbatim>\<open>response.json()\<close> is
  called inside the \<^verbatim>\<open>try\<close> block. The \<^verbatim>\<open>except\<close> clause names \<^verbatim>\<open>RequestException\<close> only: the
  \<^verbatim>\<open>ValueError\<close> that decoding raises passes through unwrapped. It is no \<^verbatim>\<open>NotForSend\<close> error
  either, so the cycle still attempts to send the failure text.
\<close>

theorem get_api_answer_decode_error_unwrapped:
  "get_api_answer cpython example_token api_bad_json 1700000600 (JInt 1700000000)
     = Inl (LibraryError decode_error_text)
   \<and> attempts (fst (snd (poll_cycle cpython example_token
                           (example_env api_bad_json telegram_ok)
                           (initial_state 1700000000))))
     = [failure_prefix @ decode_error_text]"
proof -
  have f: "get_api_answer cpython example_token
             (requests_get (example_env api_bad_json telegram_ok))
             (now_fetch (example_env api_bad_json telegram_ok))
             (current_timestamp (initial_state 1700000000))
           = Inl (LibraryError decode_error_text)"
    by (simp add: get_api_answer_def api_bad_json_def example_env_simps initial_state_def
          Let_def)
  have ne: "failure_prefix @ str_error cpython (LibraryError decode_error_text)
              \<noteq> prev_msg (initial_state 1700000000)"
    by (simp add: initial_state_def failure_prefix_def)
  have "attempts (fst (snd (poll_cycle cpython example_token
                           (example_env api_bad_json telegram_ok)
                           (initial_state 1700000000))))
     = [failure_prefix @ decode_error_text]"
    using handle_error_sendable(1)
            [of "LibraryError decode_error_text" cpython
                "example_env api_bad_json telegram_ok" "initial_state 1700000000"]
          ne
    by (cases "handle_error cpython (example_env api_bad_json telegram_ok)
                 (initial_state 1700000000) (LibraryError decode_error_text)")
       (simp add: poll_cycle_fetch_error [OF f] attempts_append)
  with f show ?thesis
    by (simp add: example_env_simps initial_state_def)
qed

text \<open>
  C7. In a cycle whose message differs from \<^verbatim>\<open>prev_msg\<close>: when the send fails with an error
  of the messenger, the \<^verbatim>\<open>TelegramError\<close> reaches the \<^verbatim>\<open>NotForSend\<close> handler, which logs it,
  and \<^verbatim>\<open>prev_msg\<close> keeps its value; when the send succeeds \<^verbatim>\<open>prev_msg\<close> becomes the message;
  and \<^verbatim>\<open>prev_msg\<close> is the message after the cycle only if the send succeeded.
\<close>

theorem delivery_failure_keeps_prev_msg:
  assumes "compute_message rt token env st = (st1, Inr m)"
      and "m \<noteq> prev_msg st"
  shows "(bot_send env m = Raises True s r \<longrightarrow>
            poll_cycle rt token env st =
              (st1,
               [Log DEBUG msg_send_start, Send m, Log ERROR msg_send_failed,
                Log ERROR (failure_prefix @ str_error rt (TelegramError (msg_send_failed_with @ s @ ascii ''.''))),
                Sleep RETRY_PERIOD],
               None)
            \<and> NotForSend (TelegramError (msg_send_failed_with @ s @ ascii ''.''))
            \<and> prev_msg st1 = prev_msg st)
       \<and> (bot_send env m = Returns () \<longrightarrow>
            poll_cycle rt token env st =
              (st1\<lparr>prev_msg := m\<rparr>,
               [Log DEBUG msg_send_start, Send m, Log INFO msg_sent, Sleep RETRY_PERIOD],
               None))
       \<and> (prev_msg (fst (poll_cycle rt token env st)) = m \<longrightarrow> bot_send env m = Returns ())"
proof -
  have prev: "prev_msg st1 = prev_msg st"
    using assms(1) by (rule compute_message_prev_msg)
  with assms(2) have ne: "m \<noteq> prev_msg st1" by simp
  have shape: "m = no_new_statuses \<or> (\<exists>x. m = status_changed @ x)"
    using assms(1) by (rule compute_message_Inr)
  have a: "bot_send env m = Raises True s r \<longrightarrow>
            poll_cycle rt token env st =
              (st1,
               [Log DEBUG msg_send_start, Send m, Log ERROR msg_send_failed,
                Log ERROR (failure_prefix @ str_error rt (TelegramError (msg_send_failed_with @ s @ ascii ''.''))),
                Sleep RETRY_PERIOD],
               None)"
    using ne by (simp add: poll_cycle_message [OF assms(1)] deliver_def send_message_def
                  handle_error_def Let_def)
  have b: "bot_send env m = Returns () \<longrightarrow>
            poll_cycle rt token env st =
              (st1\<lparr>prev_msg := m\<rparr>,
               [Log DEBUG msg_send_start, Send m, Log INFO msg_sent, Sleep RETRY_PERIOD],
               None)"
    using ne by (simp add: poll_cycle_message [OF assms(1)] deliver_def send_message_def)
  have c: "prev_msg (fst (poll_cycle rt token env st)) = m \<longrightarrow> bot_send env m = Returns ()"
  proof -
    consider (ok) "bot_send env m = Returns ()"
      | (telegram) s' r' where "bot_send env m = Raises True s' r'"
      | (other) s' r' where "bot_send env m = Raises False s' r'"
      by (cases "bot_send env m") auto
    then show ?thesis
    proof cases
      case ok
      then show ?thesis by simp
    next
      case telegram
      with ne show ?thesis
        by (simp add: poll_cycle_message [OF assms(1)] deliver_def send_message_def
              handle_error_def Let_def)
    next
      case other
      obtain evs q where sm: "send_message (bot_send env) (failure_prefix @ s') = (evs, q)"
        by (cases "send_message (bot_send env) (failure_prefix @ s')") auto
      from other ne sm failure_text_not_message [OF shape, of s'] show ?thesis
        by (cases q)
           (auto simp add: poll_cycle_message [OF assms(1)] deliver_def send_message_def
              handle_error_def Let_def)
    qed
  qed
  have d: "NotForSend (TelegramError (msg_send_failed_with @ s @ ascii ''.''))"
    by simp
  from a b c d prev show ?thesis by blast
qed

theorem delivery_failure_keeps_prev_msg_witness:
  "poll_cycle cpython example_token (example_env (api_returns example_response) telegram_down)
     (initial_state 1700000000)
   = (\<lparr>current_timestamp = JInt 1700000300, prev_msg = []\<rparr>,
      [Log DEBUG msg_send_start, Send hw1_approved_text, Log ERROR msg_send_failed,
       Log ERROR (failure_prefix @ msg_send_failed_with @ ascii ''Timed out.''),
       Sleep RETRY_PERIOD],
      None)
   \<and> poll_cycle cpython example_token (example_env (api_returns example_response) telegram_ok)
       (initial_state 1700000000)
     = (\<lparr>current_timestamp = JInt 1700000300, prev_msg = hw1_approved_text\<rparr>,
        [Log DEBUG msg_send_start, Send hw1_approved_text, Log INFO msg_sent,
         Sleep RETRY_PERIOD],
        None)"
proof -
  have ne: "hw1_approved_text \<noteq> prev_msg (initial_state 1700000000)"
    by (simp add: initial_state_def example_texts_nonempty)
  show ?thesis
    using delivery_failure_keeps_prev_msg
            [OF compute_message_example [of telegram_down] ne,
             where s = "ascii ''Timed out''" and r = "ascii ''TimedOut()''"]
          delivery_failure_keeps_prev_msg
            [OF compute_message_example [of telegram_ok] ne]
    by (simp add: example_env_def telegram_down_def telegram_ok_def initial_state_def
          ascii_simps)
qed

lemma compute_message_timestamp:
  "current_timestamp (fst (compute_message rt token env st)) =
     (case get_api_answer rt token (requests_get env) (now_fetch env) (current_timestamp st) of
        Inr (JDict kvs) \<Rightarrow>
          (case map_of kvs (ascii ''current_date'') of
             Some date \<Rightarrow> date
           | None \<Rightarrow> JInt (now_update env))
      | _ \<Rightarrow> current_timestamp st)"
  by (auto simp: compute_message_def split: sum.splits json.splits option.splits)

lemma deliver_timestamp: "current_timestamp (fst (deliver env st m)) = current_timestamp st"
  by (simp add: deliver_def split: prod.splits option.splits)

lemma handle_error_timestamp:
  "current_timestamp (fst (handle_error rt env st e)) = current_timestamp st"
  by (simp add: handle_error_def Let_def split: prod.splits option.splits)

lemma poll_cycle_timestamp:
  "current_timestamp (fst (poll_cycle rt token env st)) =
   current_timestamp (fst (compute_message rt token env st))"
proof (cases "compute_message rt token env st")
  case (Pair st1 res)
  show ?thesis
  proof (cases res)
    case (Inl e)
    with Pair handle_error_timestamp [of rt env st1 e] show ?thesis
      by (auto simp add: poll_cycle_def split: prod.splits)
  next
    case (Inr m)
    obtain st2 evs q where d: "deliver env st1 m = (st2, evs, q)"
      by (cases "deliver env st1 m") auto
    with deliver_timestamp [of env st1 m]
    have t2: "current_timestamp st2 = current_timestamp st1" by simp
    show ?thesis
    proof (cases q)
      case None
      with Pair Inr d t2 show ?thesis by (simp add: poll_cycle_def)
    next
      case (Some e)
      with Pair Inr d t2 handle_error_timestamp [of rt env st2 e] show ?thesis
        by (auto simp add: poll_cycle_def split: prod.splits)
    qed
  qed
qed

text \<open>
  C8, as the code has it. After a cycle \<^verbatim>\<open>current_timestamp\<close> is the \<^verbatim>\<open>current_date\<close> of the
  response when the fetch returned a dict with that key, the clock reading when the fetch
  returned a dict without it, and unchanged in every other case. Nothing compares the new
  value with the old one.
\<close>

theorem current_timestamp_after_cycle:
  "current_timestamp (fst (poll_cycle rt token env st)) =
     (case get_api_answer rt token (requests_get env) (now_fetch env) (current_timestamp st) of
        Inr (JDict kvs) \<Rightarrow>
          (case map_of kvs (ascii ''current_date'') of
             Some date \<Rightarrow> date
           | None \<Rightarrow> JInt (now_update env))
      | _ \<Rightarrow> current_timestamp st)"
  unfolding poll_cycle_timestamp by (rule compute_message_timestamp)

theorem current_timestamp_after_cycle_witness:
  "current_timestamp (fst (poll_cycle cpython example_token
      (example_env (api_returns example_response) telegram_ok) (initial_state 1700000000)))
     = JInt 1700000300
   \<and> current_timestamp (fst (poll_cycle cpython example_token
        (example_env (api_returns (JDict [(ascii ''homeworks'', JList [])])) telegram_ok)
        (initial_state 1700000000)))
     = JInt 1700000601
   \<and> current_timestamp (fst (poll_cycle cpython example_token
        (example_env (api_status 503) telegram_ok) (initial_state 1700000000)))
     = JInt 1700000000
   \<and> current_timestamp (fst (poll_cycle cpython example_token
        (example_env (api_returns (JList [])) telegram_ok) (initial_state 1700000000)))
     = JInt 1700000000"
proof -
  obtain m where
    "get_api_answer cpython example_token (api_status 503) 1700000600 (JInt 1700000000)
       = Inl (WrongResponseCode m None)"
    using get_api_answer_api_status
            [where code = 503 and rt = cpython and token = example_token
               and now = 1700000600 and ts = "JInt 1700000000"]
    by auto
  then show ?thesis
    using current_timestamp_after_cycle
          [of cpython example_token "example_env (api_returns example_response) telegram_ok"
              "initial_state 1700000000"]
        current_timestamp_after_cycle
          [of cpython example_token
              "example_env (api_returns (JDict [(ascii ''homeworks'', JList [])])) telegram_ok"
              "initial_state 1700000000"]
        current_timestamp_after_cycle
          [of cpython example_token "example_env (api_status 503) telegram_ok"
              "initial_state 1700000000"]
        current_timestamp_after_cycle
          [of cpython example_token "example_env (api_returns (JList [])) telegram_ok"
              "initial_state 1700000000"]
    by (simp add: example_env_simps get_api_answer_api_returns example_response_def
          initial_state_def ascii_simps)
qed

text \<open>
  The specification has the timestamp advance monotonically. It does not: when the API
  reports an earlier \<^verbatim>\<open>current_date\<close> in the second cycle than in the first, the timestamp
  goes back from 1700000300 to 1700000200.
\<close>

theorem current_timestamp_decreases_counterexample:
  "current_timestamp (fst (poll_loop cpython example_token
      [example_env (api_returns (no_homeworks_response 1700000300)) telegram_ok]
      (initial_state 1700000000)))
     = JInt 1700000300
   \<and> current_timestamp (fst (poll_loop cpython example_token
        [example_env (api_returns (no_homeworks_response 1700000300)) telegram_ok,
         example_env (api_returns (no_homeworks_response 1700000200)) telegram_ok]
        (initial_state 1700000000)))
     = JInt 1700000200"
proof -
  have ne: "no_new_statuses \<noteq> prev_msg (initial_state 1700000000)"
    by (simp add: initial_state_def example_texts_nonempty)
  have ok: "bot_send (example_env api telegram_ok) no_new_statuses = Returns ()" for api
    by (simp add: example_env_def telegram_ok_def)
  note p1 = poll_cycle_delivered [OF compute_message_no_homeworks ne ok]
  note p2 = poll_cycle_quiet [OF compute_message_no_homeworks]
  show ?thesis
    by (simp add: p1 p2)
qed

lemma deliver_attempts:
  "attempts (fst (snd (deliver env st m))) = (if m \<noteq> prev_msg st then [m] else [])"
proof -
  obtain evs q where "send_message (bot_send env) m = (evs, q)" "attempts evs = [m]"
    using send_message_shape by blast
  then show ?thesis
    by (cases q) (simp_all add: deliver_def)
qed

lemma deliver_error_prev_msg:
  "deliver env st m = (st2, evs, Some e) \<Longrightarrow> prev_msg st2 = prev_msg st"
  by (auto simp: deliver_def split: if_splits prod.splits option.splits)

lemma handle_error_attempts:
  "text \<in> set (attempts (fst (snd (handle_error rt env st e)))) \<Longrightarrow> text \<noteq> prev_msg st"
proof (cases "NotForSend e")
  case True
  assume "text \<in> set (attempts (fst (snd (handle_error rt env st e))))"
  with True show ?thesis by (simp add: handle_error_def Let_def)
next
  case False
  assume "text \<in> set (attempts (fst (snd (handle_error rt env st e))))"
  with handle_error_sendable(1) [OF False, of rt env st] show ?thesis
    by (auto split: if_splits)
qed

lemma poll_cycle_attempts:
  assumes "text \<in> set (attempts (fst (snd (poll_cycle rt token env st))))"
  shows "text \<noteq> prev_msg st"
proof (cases "compute_message rt token env st")
  case (Pair st1 res)
  have prev: "prev_msg st1 = prev_msg st"
    using Pair by (rule compute_message_prev_msg)
  show ?thesis
  proof (cases res)
    case (Inl e)
    with Pair assms have "text \<in> set (attempts (fst (snd (handle_error rt env st1 e))))"
      by (auto simp: poll_cycle_def attempts_append split: prod.splits)
    with prev handle_error_attempts show ?thesis by metis
  next
    case (Inr m)
    obtain st2 evs q where d: "deliver env st1 m = (st2, evs, q)"
      by (cases "deliver env st1 m") auto
    have da: "attempts evs = (if m \<noteq> prev_msg st1 then [m] else [])"
      using deliver_attempts [of env st1 m] d by simp
    show ?thesis
    proof (cases q)
      case None
      with Pair Inr d assms have "text \<in> set (attempts evs)"
        by (simp add: poll_cycle_def attempts_append)
      with da prev show ?thesis by (auto split: if_splits)
    next
      case (Some e)
      with d have p2: "prev_msg st2 = prev_msg st1"
        using deliver_error_prev_msg by blast
      from Some Pair Inr d assms
      have "text \<in> set (attempts evs) \<or>
            text \<in> set (attempts (fst (snd (handle_error rt env st2 e))))"
        by (auto simp: poll_cycle_def attempts_append split: prod.splits)
      then show ?thesis
      proof
        assume "text \<in> set (attempts evs)"
        with da prev show ?thesis by (auto split: if_splits)
      next
        assume "text \<in> set (attempts (fst (snd (handle_error rt env st2 e))))"
        with handle_error_attempts have "text \<noteq> prev_msg st2" by metis
        with p2 prev show ?thesis by simp
      qed
    qed
  qed
qed

lemma poll_cycle_first_attempt:
  assumes "compute_message rt token env st = (st1, Inr m)" and "m \<noteq> prev_msg st"
  shows "\<exists>rest. attempts (fst (snd (poll_cycle rt token env st))) = m # rest"
proof -
  have prev: "prev_msg st1 = prev_msg st"
    using assms(1) by (rule compute_message_prev_msg)
  obtain st2 evs q where d: "deliver env st1 m = (st2, evs, q)"
    by (cases "deliver env st1 m") auto
  have da: "attempts evs = [m]"
    using deliver_attempts [of env st1 m] d assms(2) prev by simp
  show ?thesis
    using d da
    by (cases q) (auto simp: poll_cycle_message [OF assms(1)] attempts_append split: prod.splits)
qed

lemma response_message_dict:
  "response_message rt resp = Inr m \<Longrightarrow> \<exists>kvs. resp = JDict kvs"
  by (cases resp) (simp_all add: response_message_def)

lemma compute_message_fetched:
  assumes "get_api_answer rt token (requests_get env) (now_fetch env) (current_timestamp st) = Inr resp"
      and "response_message rt resp = Inr m"
  shows "\<exists>date. compute_message rt token env st = (st\<lparr>current_timestamp := date\<rparr>, Inr m)"
proof -
  from assms(2) obtain kvs where "resp = JDict kvs"
    using response_message_dict by blast
  with assms show ?thesis
    by (auto simp add: compute_message_def)
qed

lemma same_response_twice:
  assumes f1: "get_api_answer rt token (requests_get env) (now_fetch env) (current_timestamp st) = Inr resp"
      and f2: "\<And>ts. get_api_answer rt token (requests_get env') (now_fetch env') ts = Inr resp"
      and rm: "response_message rt resp = Inr m"
  shows "m \<noteq> prev_msg st \<Longrightarrow> bot_send env m = Returns () \<Longrightarrow>
           attempts (fst (snd (poll_loop rt token [env, env'] st))) = [m]"
    and "m = prev_msg st \<Longrightarrow> attempts (fst (snd (poll_loop rt token [env, env'] st))) = []"
proof -
  obtain d1 where c1: "compute_message rt token env st = (st\<lparr>current_timestamp := d1\<rparr>, Inr m)"
    using compute_message_fetched [OF f1 rm] by blast
  {
    assume ne: "m \<noteq> prev_msg st" and ok: "bot_send env m = Returns ()"
    let ?st1 = "st\<lparr>current_timestamp := d1, prev_msg := m\<rparr>"
    have p1: "poll_cycle rt token env st =
                (?st1, [Log DEBUG msg_send_start, Send m, Log INFO msg_sent, Sleep RETRY_PERIOD], None)"
      using poll_cycle_delivered [OF c1 ne ok] by simp
    obtain d2 where c2: "compute_message rt token env' ?st1 = (?st1\<lparr>current_timestamp := d2\<rparr>, Inr m)"
      using compute_message_fetched [OF f2 rm] by blast
    have p2: "poll_cycle rt token env' ?st1 =
                (?st1\<lparr>current_timestamp := d2\<rparr>, [Log INFO m, Sleep RETRY_PERIOD], None)"
      using poll_cycle_quiet [OF c2] by simp
    show "attempts (fst (snd (poll_loop rt token [env, env'] st))) = [m]"
      by (simp add: p1 p2)
  }
  {
    assume eq: "m = prev_msg st"
    let ?st1 = "st\<lparr>current_timestamp := d1\<rparr>"
    have p1: "poll_cycle rt token env st = (?st1, [Log INFO m, Sleep RETRY_PERIOD], None)"
      using poll_cycle_quiet [OF c1 eq] .
    obtain d2 where c2: "compute_message rt token env' ?st1 = (?st1\<lparr>current_timestamp := d2\<rparr>, Inr m)"
      using compute_message_fetched [OF f2 rm] by blast
    have p2: "poll_cycle rt token env' ?st1 =
                (?st1\<lparr>current_timestamp := d2\<rparr>, [Log INFO m, Sleep RETRY_PERIOD], None)"
      using poll_cycle_quiet [OF c2] eq by simp
    show "attempts (fst (snd (poll_loop rt token [env, env'] st))) = []"
      by (simp add: p1 p2)
  }
qed

text \<open>
  C2, as the code has it. Every text a cycle attempts to send differs from \<^verbatim>\<open>prev_msg\<close>; a
  cycle whose message equals \<^verbatim>\<open>prev_msg\<close> only logs it and sleeps; a cycle whose message
  differs attempts to send it. When two consecutive cycles fetch the same response and it
  yields the message \<open>m'\<close>: if \<open>m'\<close> differs from \<^verbatim>\<open>prev_msg\<close> and the first send succeeds,
  exactly one attempt is made in the two cycles, and if \<open>m'\<close> equals \<^verbatim>\<open>prev_msg\<close>, none.
\<close>

theorem delivery_only_on_change:
  "(\<forall>text \<in> set (attempts (fst (snd (poll_cycle rt token env st)))). text \<noteq> prev_msg st)
   \<and> (compute_message rt token env st = (st', Inr m) \<and> m = prev_msg st \<longrightarrow>
        poll_cycle rt token env st = (st', [Log INFO m, Sleep RETRY_PERIOD], None))
   \<and> (compute_message rt token env st = (st', Inr m) \<and> m \<noteq> prev_msg st \<longrightarrow>
        (\<exists>rest. attempts (fst (snd (poll_cycle rt token env st))) = m # rest))
   \<and> (get_api_answer rt token (requests_get env) (now_fetch env) (current_timestamp st) = Inr resp
      \<and> (\<forall>ts. get_api_answer rt token (requests_get env') (now_fetch env') ts = Inr resp)
      \<and> response_message rt resp = Inr m' \<longrightarrow>
        (m' \<noteq> prev_msg st \<and> bot_send env m' = Returns () \<longrightarrow>
           attempts (fst (snd (poll_loop rt token [env, env'] st))) = [m'])
        \<and> (m' = prev_msg st \<longrightarrow>
           attempts (fst (snd (poll_loop rt token [env, env'] st))) = []))"
  using poll_cycle_attempts [of _ rt token env st]
        poll_cycle_quiet [of rt token env st st' m]
        poll_cycle_first_attempt [of rt token env st st' m]
        same_response_twice [of rt token env st resp env' m']
  by blast

theorem delivery_only_on_change_witness:
  "attempts (fst (snd (poll_loop cpython example_token
      [example_env (api_returns example_response) telegram_ok,
       example_env (api_returns example_response) telegram_ok]
      (initial_state 1700000000))))
     = [hw1_approved_text]
   \<and> poll_cycle cpython example_token (example_env (api_returns example_response) telegram_ok)
       \<lparr>current_timestamp = JInt 1700000300, prev_msg = hw1_approved_text\<rparr>
     = (\<lparr>current_timestamp = JInt 1700000300, prev_msg = hw1_approved_text\<rparr>,
        [Log INFO hw1_approved_text, Sleep RETRY_PERIOD], None)"
  using delivery_only_on_change
          [where rt = cpython and token = example_token
             and env = "example_env (api_returns example_response) telegram_ok"
             and env' = "example_env (api_returns example_response) telegram_ok"
             and st = "initial_state 1700000000" and resp = example_response
             and m' = hw1_approved_text]
        delivery_only_on_change
          [where rt = cpython and token = example_token
             and env = "example_env (api_returns example_response) telegram_ok"
             and st = "\<lparr>current_timestamp = JInt 1700000300, prev_msg = hw1_approved_text\<rparr>"
             and st' = "\<lparr>current_timestamp = JInt 1700000300, prev_msg = hw1_approved_text\<rparr>"
             and m = hw1_approved_text]
  by (simp add: compute_message_example response_message_example example_texts_nonempty
        get_api_answer_api_returns example_env_simps telegram_ok_def initial_state_def)

text \<open>
  The specification promises exactly one attempt for the same response in two consecutive
  cycles. With \<^verbatim>\<open>prev_msg\<close> already equal to the message there is none, and with a messenger
  that fails both times there are two.
\<close>

theorem same_response_twice_counterexample:
  "attempts (fst (snd (poll_loop cpython example_token
      [example_env (api_returns (no_homeworks_response 1700000300)) telegram_ok,
       example_env (api_returns (no_homeworks_response 1700000300)) telegram_ok]
      \<lparr>current_timestamp = JInt 1700000000, prev_msg = no_new_statuses\<rparr>)))
     = []
   \<and> attempts (fst (snd (poll_loop cpython example_token
        [example_env (api_returns (no_homeworks_response 1700000300)) telegram_down,
         example_env (api_returns (no_homeworks_response 1700000300)) telegram_down]
        (initial_state 1700000000))))
     = [no_new_statuses, no_new_statuses]"
proof -
  let ?quiet = "example_env (api_returns (no_homeworks_response 1700000300)) telegram_ok"
  let ?down = "example_env (api_returns (no_homeworks_response 1700000300)) telegram_down"
  have down: "bot_send ?down no_new_statuses
                = Raises True (ascii ''Timed out'') (ascii ''TimedOut()'')"
    by (simp add: example_env_def telegram_down_def)
  have q1: "poll_cycle cpython example_token ?quiet
              \<lparr>current_timestamp = JInt 1700000000, prev_msg = no_new_statuses\<rparr>
            = (\<lparr>current_timestamp = JInt 1700000300, prev_msg = no_new_statuses\<rparr>,
               [Log INFO no_new_statuses, Sleep RETRY_PERIOD], None)"
    using poll_cycle_quiet [OF compute_message_no_homeworks] by simp
  have q2: "poll_cycle cpython example_token ?quiet
              \<lparr>current_timestamp = JInt 1700000300, prev_msg = no_new_statuses\<rparr>
            = (\<lparr>current_timestamp = JInt 1700000300, prev_msg = no_new_statuses\<rparr>,
               [Log INFO no_new_statuses, Sleep RETRY_PERIOD], None)"
    using poll_cycle_quiet [OF compute_message_no_homeworks] by simp
  have t1: "fst (poll_cycle cpython example_token ?down (initial_state 1700000000))
              = \<lparr>current_timestamp = JInt 1700000300, prev_msg = []\<rparr>
            \<and> attempts (fst (snd (poll_cycle cpython example_token ?down
                                     (initial_state 1700000000)))) = [no_new_statuses]
            \<and> snd (snd (poll_cycle cpython example_token ?down (initial_state 1700000000)))
              = None"
    using poll_cycle_telegram_error [OF compute_message_no_homeworks _ down]
    by (simp add: initial_state_def example_texts_nonempty)
  have t2: "attempts (fst (snd (poll_cycle cpython example_token ?down
                                  \<lparr>current_timestamp = JInt 1700000300, prev_msg = []\<rparr>)))
              = [no_new_statuses]
            \<and> snd (snd (poll_cycle cpython example_token ?down
                           \<lparr>current_timestamp = JInt 1700000300, prev_msg = []\<rparr>))
              = None"
    using poll_cycle_telegram_error [OF compute_message_no_homeworks _ down]
    by (simp add: example_texts_nonempty)
  have a: "attempts (fst (snd (poll_loop cpython example_token [?quiet, ?quiet]
             \<lparr>current_timestamp = JInt 1700000000, prev_msg = no_new_statuses\<rparr>))) = []"
    by (simp add: q1 q2)
  have b: "attempts (fst (snd (poll_loop cpython example_token [?down, ?down]
             (initial_state 1700000000)))) = [no_new_statuses, no_new_statuses]"
    using t1 t2
    by (cases "poll_cycle cpython example_token ?down (initial_state 1700000000)";
        cases "poll_cycle cpython example_token ?down
                 \<lparr>current_timestamp = JInt 1700000300, prev_msg = []\<rparr>")
       (simp add: attempts_append)
  from a b show ?thesis by simp
qed

text \<open>
  An exception leaves a cycle only from the \<^verbatim>\<open>send_message\<close> call inside the second handler:
  whatever the body raises is caught.
\<close>

lemma handle_error_escape:
  assumes "snd (snd (handle_error rt env st e)) = Some e'"
  shows "\<not> NotForSend e \<and>
         snd (send_message (bot_send env) (failure_prefix @ str_error rt e)) = Some e'"
  using assms
  by (auto simp: handle_error_def Let_def split: if_splits prod.splits option.splits)

lemma poll_cycle_escape:
  assumes "snd (snd (poll_cycle rt token env st)) = Some e'"
  shows "\<exists>e. \<not> NotForSend e \<and>
             snd (send_message (bot_send env) (failure_prefix @ str_error rt e)) = Some e'"
proof (cases "compute_message rt token env st")
  case (Pair st1 res)
  show ?thesis
  proof (cases res)
    case (Inl e)
    with Pair assms have "snd (snd (handle_error rt env st1 e)) = Some e'"
      by (auto simp: poll_cycle_def split: prod.splits)
    then show ?thesis
      using handle_error_escape by blast
  next
    case (Inr m)
    obtain st2 evs q where d: "deliver env st1 m = (st2, evs, q)"
      by (cases "deliver env st1 m") auto
    show ?thesis
    proof (cases q)
      case None
      with Pair Inr d assms show ?thesis
        by (simp add: poll_cycle_def)
    next
      case (Some e)
      with Pair Inr d assms have "snd (snd (handle_error rt env st2 e)) = Some e'"
        by (auto simp: poll_cycle_def split: prod.splits)
      then show ?thesis
        using handle_error_escape by blast
    qed
  qed
qed

text \<open>
  C1. The claim is that no error of a cycle leaves the loop, in particular not a failed send
  of a failure notification. The code lets that one out: with the API answering 503 and the
  messenger timing out, the \<^verbatim>\<open>TelegramError\<close> raised inside the second handler leaves the
  cycle after the sleep, the loop ends with it, and the next cycle is never run.
\<close>

theorem handler_send_failure_escapes:
  "poll_cycle cpython example_token (example_env (api_status 503) telegram_down)
     (initial_state 1700000000)
   = (initial_state 1700000000,
      [Log ERROR (failure_prefix @ msg_not_200 @ msg_response_code @ ascii ''503. '' @
                  example_request_text),
       Log DEBUG msg_send_start,
       Send (failure_prefix @ msg_not_200 @ msg_response_code @ ascii ''503. '' @
             example_request_text),
       Log ERROR msg_send_failed,
       Sleep RETRY_PERIOD],
      Some (TelegramError (msg_send_failed_with @ ascii ''Timed out.'')))
   \<and> snd (snd (poll_loop cpython example_token
        [example_env (api_status 503) telegram_down,
         example_env (api_returns example_response) telegram_ok]
        (initial_state 1700000000)))
     = Some (TelegramError (msg_send_failed_with @ ascii ''Timed out.''))
   \<and> attempts (fst (snd (poll_loop cpython example_token
        [example_env (api_status 503) telegram_down,
         example_env (api_returns example_response) telegram_ok]
        (initial_state 1700000000))))
     = [failure_prefix @ msg_not_200 @ msg_response_code @ ascii ''503. '' @
        example_request_text]"
proof -
  let ?m = "msg_not_200 @ msg_response_code @ ascii ''503. '' @ example_request_text"
  have f: "get_api_answer cpython example_token
             (requests_get (example_env (api_status 503) telegram_down))
             (now_fetch (example_env (api_status 503) telegram_down))
             (current_timestamp (initial_state 1700000000))
           = Inl (WrongResponseCode ?m None)"
    using example_request
    by (simp add: get_api_answer_def example_env_def api_status_def initial_state_def Let_def
          cpython_simps decimal.simps ascii_simps)
  have h: "handle_error cpython (example_env (api_status 503) telegram_down)
             (initial_state 1700000000) (WrongResponseCode ?m None)
           = (initial_state 1700000000,
              [Log ERROR (failure_prefix @ ?m), Log DEBUG msg_send_start,
               Send (failure_prefix @ ?m), Log ERROR msg_send_failed],
              Some (TelegramError (msg_send_failed_with @ ascii ''Timed out.'')))"
    using example_texts_nonempty(3) [of ?m]
    by (simp add: handle_error_def send_message_def example_env_def telegram_down_def
          initial_state_def Let_def ascii_simps)
  have p: "poll_cycle cpython example_token (example_env (api_status 503) telegram_down)
             (initial_state 1700000000)
           = (initial_state 1700000000,
              [Log ERROR (failure_prefix @ ?m), Log DEBUG msg_send_start,
               Send (failure_prefix @ ?m), Log ERROR msg_send_failed, Sleep RETRY_PERIOD],
              Some (TelegramError (msg_send_failed_with @ ascii ''Timed out.'')))"
    by (simp add: poll_cycle_fetch_error [OF f] h)
  show ?thesis
    by (simp add: p)
qed

end
